theory Spec2Isabelle
  imports Complex_Main
begin

section \<open>Numbers and strings of the host language\<close>

text \<open>
  The editor is a single React component, \<^verbatim>\<open>SVGDragDropEditor.jsx\<close>. Its numbers are
  JavaScript numbers. A finite number is modelled by a real, so rounding to the nearest
  double and the sign of zero are left out; the three special values (\<^verbatim>\<open>NaN\<close>,
  \<^verbatim>\<open>Infinity\<close>, \<^verbatim>\<open>-Infinity\<close>) are kept: \<^verbatim>\<open>parseFloat\<close> returns \<^verbatim>\<open>NaN\<close> on
  text that is no number, and \<^verbatim>\<open>getBoundingBox\<close> starts its minima and maxima at the
  infinities. \<open>Undefined\<close> is the value of a numeric field that an object does not have;
  arithmetic turns it into \<^verbatim>\<open>NaN\<close>, and no result of arithmetic is \<open>Undefined\<close>.
\<close>

datatype jsnum = Undefined | NaN | Num real | PInf | NInf

fun jsNeg :: "jsnum \<Rightarrow> jsnum" where
  "jsNeg Undefined = NaN"
| "jsNeg NaN = NaN"
| "jsNeg (Num a) = Num (- a)"
| "jsNeg PInf = NInf"
| "jsNeg NInf = PInf"

fun jsAdd :: "jsnum \<Rightarrow> jsnum \<Rightarrow> jsnum" where
  "jsAdd Undefined b = NaN"
| "jsAdd a Undefined = NaN"
| "jsAdd NaN b = NaN"
| "jsAdd a NaN = NaN"
| "jsAdd (Num a) (Num b) = Num (a + b)"
| "jsAdd PInf NInf = NaN"
| "jsAdd NInf PInf = NaN"
| "jsAdd PInf b = PInf"
| "jsAdd NInf b = NInf"
| "jsAdd (Num a) b = b"

definition jsSub :: "jsnum \<Rightarrow> jsnum \<Rightarrow> jsnum" where
  "jsSub a b = jsAdd a (jsNeg b)"

text \<open>\<^verbatim>\<open>a <= b\<close>: false as soon as one side is \<^verbatim>\<open>NaN\<close> or \<^verbatim>\<open>undefined\<close>.\<close>

fun jsLe :: "jsnum \<Rightarrow> jsnum \<Rightarrow> bool" where
  "jsLe Undefined b = False"
| "jsLe a Undefined = False"
| "jsLe NaN b = False"
| "jsLe a NaN = False"
| "jsLe NInf b = True"
| "jsLe a PInf = True"
| "jsLe (Num a) (Num b) = (a \<le> b)"
| "jsLe PInf b = False"
| "jsLe (Num a) NInf = False"

text \<open>\<^verbatim>\<open>isNaN\<close>, which is true of \<^verbatim>\<open>undefined\<close> too.\<close>

definition jsIsNaN :: "jsnum \<Rightarrow> bool" where
  "jsIsNaN a = (a = NaN \<or> a = Undefined)"

text \<open>\<^verbatim>\<open>Math.min\<close> and \<^verbatim>\<open>Math.max\<close> of two arguments: \<^verbatim>\<open>NaN\<close> if either is.\<close>

definition jsMin :: "jsnum \<Rightarrow> jsnum \<Rightarrow> jsnum" where
  "jsMin a b = (if jsIsNaN a \<or> jsIsNaN b then NaN else if jsLe a b then a else b)"

definition jsMax :: "jsnum \<Rightarrow> jsnum \<Rightarrow> jsnum" where
  "jsMax a b = (if jsIsNaN a \<or> jsIsNaN b then NaN else if jsLe a b then b else a)"

text \<open>The sign of a number, and the infinity of a sign (\<^verbatim>\<open>NaN\<close> for no sign).\<close>

fun jsSign :: "jsnum \<Rightarrow> real" where
  "jsSign (Num a) = sgn a"
| "jsSign PInf = 1"
| "jsSign NInf = - 1"
| "jsSign a = 0"

definition jsInf :: "real \<Rightarrow> jsnum" where
  "jsInf s = (if s > 0 then PInf else if s < 0 then NInf else NaN)"

fun jsMul :: "jsnum \<Rightarrow> jsnum \<Rightarrow> jsnum" where
  "jsMul Undefined b = NaN"
| "jsMul a Undefined = NaN"
| "jsMul NaN b = NaN"
| "jsMul a NaN = NaN"
| "jsMul (Num a) (Num b) = Num (a * b)"
| "jsMul a b = jsInf (jsSign a * jsSign b)"

text \<open>Division; a zero divisor counts as \<open>+0\<close>.\<close>

fun jsDiv :: "jsnum \<Rightarrow> jsnum \<Rightarrow> jsnum" where
  "jsDiv Undefined b = NaN"
| "jsDiv a Undefined = NaN"
| "jsDiv NaN b = NaN"
| "jsDiv a NaN = NaN"
| "jsDiv (Num a) (Num b) = (if b = 0 then jsInf (sgn a) else Num (a / b))"
| "jsDiv (Num a) b = Num 0"
| "jsDiv a (Num b) = jsInf (jsSign a * (if b < 0 then - 1 else 1))"
| "jsDiv a b = NaN"

text \<open>\<^verbatim>\<open>Math.round\<close> rounds a half up, as \<^const>\<open>round\<close> does.\<close>

fun jsRound :: "jsnum \<Rightarrow> jsnum" where
  "jsRound Undefined = NaN"
| "jsRound (Num a) = Num (of_int (round a))"
| "jsRound a = a"

fun jsSqrt :: "jsnum \<Rightarrow> jsnum" where
  "jsSqrt Undefined = NaN"
| "jsSqrt (Num a) = (if a < 0 then NaN else Num (sqrt a))"
| "jsSqrt NInf = NaN"
| "jsSqrt a = a"

text \<open>\<^verbatim>\<open>a || b\<close> on numbers: \<open>b\<close> when \<open>a\<close> is \<^verbatim>\<open>undefined\<close>, \<^verbatim>\<open>NaN\<close> or zero.\<close>

definition jsOr :: "jsnum \<Rightarrow> jsnum \<Rightarrow> jsnum" where
  "jsOr a b = (if a = Undefined \<or> a = NaN \<or> a = Num 0 then b else a)"

subsection \<open>Characters\<close>

text \<open>
  Strings are lists of characters. The class \<^verbatim>\<open>\s\<close> is modelled on its ASCII members
  (space, tab, line feed, vertical tab, form feed, carriage return).
\<close>

definition isSpace :: "char \<Rightarrow> bool" where
  "isSpace c = (c = CHR '' '' \<or> c = CHR 0x09 \<or> c = CHR 0x0A \<or> c = CHR 0x0B
                \<or> c = CHR 0x0C \<or> c = CHR 0x0D)"

definition isDigit :: "char \<Rightarrow> bool" where
  "isDigit c = (c \<in> set ''0123456789'')"

text \<open>The character class \<^verbatim>\<open>[MLHVCSQTAZmlhvcsqtaz]\<close>.\<close>

definition isCommandLetter :: "char \<Rightarrow> bool" where
  "isCommandLetter c = (c \<in> set ''MLHVCSQTAZmlhvcsqtaz'')"

text \<open>The character class \<^verbatim>\<open>[^,\s]\<close>.\<close>

definition isCoordChar :: "char \<Rightarrow> bool" where
  "isCoordChar c = (c \<noteq> CHR '','' \<and> \<not> isSpace c)"

definition digitValue :: "char \<Rightarrow> nat" where
  "digitValue c = of_char c - 48"

definition digitsValue :: "string \<Rightarrow> nat" where
  "digitsValue ds = foldl (\<lambda>a c. 10 * a + digitValue c) 0 ds"

subsection \<open>\<^verbatim>\<open>parseFloat\<close>\<close>

text \<open>
  \<^verbatim>\<open>parseFloat\<close> skips leading white space and reads the longest prefix that is a
  decimal literal: an optional sign, then \<^verbatim>\<open>Infinity\<close>, or digits with an optional
  fraction, or a fraction alone, then an optional exponent, which counts only when at
  least one digit follows it. Without such a prefix the result is \<^verbatim>\<open>NaN\<close>.
\<close>

definition scaleExp :: "real \<Rightarrow> int \<Rightarrow> real" where
  "scaleExp m e = (if 0 \<le> e then m * 10 ^ nat e else m / 10 ^ nat (- e))"

definition parseExponent :: "string \<Rightarrow> int" where
  "parseExponent s =
     (case s of
        [] \<Rightarrow> 0
      | c # t \<Rightarrow>
          if c = CHR ''e'' \<or> c = CHR ''E'' then
            (case t of
               [] \<Rightarrow> 0
             | sg # u \<Rightarrow>
                 if sg = CHR ''-'' then
                   (if takeWhile isDigit u = [] then 0
                    else - int (digitsValue (takeWhile isDigit u)))
                 else if sg = CHR ''+'' then int (digitsValue (takeWhile isDigit u))
                 else int (digitsValue (takeWhile isDigit t)))
          else 0)"

definition parseUnsigned :: "string \<Rightarrow> real option" where
  "parseUnsigned u =
     (let ip = takeWhile isDigit u;
          r1 = dropWhile isDigit u;
          fp = (case r1 of [] \<Rightarrow> [] | c # r \<Rightarrow> if c = CHR ''.'' then takeWhile isDigit r else []);
          r2 = (case r1 of [] \<Rightarrow> [] | c # r \<Rightarrow> if c = CHR ''.'' then dropWhile isDigit r else r1)
      in if ip = [] \<and> fp = [] then None
         else Some (scaleExp (real (digitsValue ip) + real (digitsValue fp) / 10 ^ length fp)
                      (parseExponent r2)))"

definition parseFloat :: "string \<Rightarrow> jsnum" where
  "parseFloat s =
     (let t = dropWhile isSpace s;
          neg = (t \<noteq> [] \<and> hd t = CHR ''-'');
          u = (if t \<noteq> [] \<and> (hd t = CHR ''-'' \<or> hd t = CHR ''+'') then tl t else t)
      in if take 8 u = ''Infinity'' then (if neg then NInf else PInf)
         else (case parseUnsigned u of
                 None \<Rightarrow> NaN
               | Some v \<Rightarrow> Num (if neg then - v else v)))"

subsection \<open>Number to string\<close>

text \<open>
  A template literal \<^verbatim>\<open>${v}\<close> prints a number by \<^verbatim>\<open>Number::toString\<close>. The special
  values print as words. An integer below \<open>10\<^sup>2\<^sup>1\<close> in magnitude prints as its decimal
  digits. Every other finite value prints as the shortest decimal that identifies the
  double, which a model over the reals cannot compute: that part is the parameter
  \<open>fmt\<close> of every function that prints a number, and the theorems hold for each \<open>fmt\<close>.
\<close>

fun natToString :: "nat \<Rightarrow> string" where
  "natToString n =
     (if n < 10 then [char_of (48 + n)]
      else natToString (n div 10) @ [char_of (48 + n mod 10)])"

declare natToString.simps [simp del]

definition numberToString :: "(real \<Rightarrow> string) \<Rightarrow> jsnum \<Rightarrow> string" where
  "numberToString fmt v =
     (case v of
        Undefined \<Rightarrow> ''undefined''
      | NaN \<Rightarrow> ''NaN''
      | PInf \<Rightarrow> ''Infinity''
      | NInf \<Rightarrow> ''-Infinity''
      | Num a \<Rightarrow>
          if a = of_int \<lfloor>a\<rfloor> \<and> \<bar>a\<bar> < 10 ^ 21
          then (if a < 0 then ''-'' else '''') @ natToString (nat \<bar>\<lfloor>a\<rfloor>\<bar>)
          else fmt a)"

text \<open>
  A printer for the remaining values, used where a closed example needs one: positional
  notation with at most twenty fraction digits.
\<close>

fun fractionDigits :: "nat \<Rightarrow> real \<Rightarrow> string" where
  "fractionDigits 0 a = []"
| "fractionDigits (Suc k) a =
     (if a = 0 then []
      else natToString (nat \<lfloor>10 * a\<rfloor>) @ fractionDigits k (10 * a - of_int \<lfloor>10 * a\<rfloor>))"

definition positional :: "real \<Rightarrow> string" where
  "positional a =
     (if a < 0 then ''-'' else '''') @ natToString (nat \<lfloor>\<bar>a\<bar>\<rfloor>) @ ''.''
       @ fractionDigits 20 (\<bar>a\<bar> - of_int \<lfloor>\<bar>a\<bar>\<rfloor>)"

section \<open>Path codec\<close>

text \<open>
  \<^verbatim>\<open>pathData.split(/(?=[MLHVCSQTAZmlhvcsqtaz])/)\<close> cuts the string in front of every
  command letter except one at the very start; the empty string gives one empty piece.
  The scan keeps the piece read so far, reversed, in \<open>cur\<close>.
\<close>

fun splitFrom :: "string \<Rightarrow> string \<Rightarrow> string list" where
  "splitFrom cur [] = [rev cur]"
| "splitFrom cur (c # cs) =
     (if isCommandLetter c \<and> cur \<noteq> [] then rev cur # splitFrom [c] cs
      else splitFrom (c # cur) cs)"

definition splitCommands :: "string \<Rightarrow> string list" where
  "splitCommands pathData = splitFrom [] pathData"

text \<open>\<^verbatim>\<open>cmd.charAt(0)\<close>: the first character as a string, or the empty string.\<close>

definition charAt0 :: "string \<Rightarrow> string" where
  "charAt0 cmd = take 1 cmd"

text \<open>
  \<^verbatim>\<open>cmd.match(/([MLml])\s*([^,\s]+)[,\s]([^,\s]+)/)\<close>. At a given start the three
  greedy parts have one way to match: giving back white space would make the first group
  start on white space, and giving back a character of a group would put a character
  of \<^verbatim>\<open>[^,\s]\<close> where \<^verbatim>\<open>[,\s]\<close> is wanted. \<open>matchAt\<close> is the match at the head of
  the string, \<open>regexMatch\<close> the leftmost one; the result holds the three groups.
\<close>

definition matchAt :: "string \<Rightarrow> (string \<times> string \<times> string) option" where
  "matchAt s =
     (case s of
        [] \<Rightarrow> None
      | c # rest \<Rightarrow>
          if c \<in> set ''MLml'' then
            (let r1 = dropWhile isSpace rest;
                 g2 = takeWhile isCoordChar r1;
                 r2 = dropWhile isCoordChar r1
             in if g2 = [] then None
                else (case r2 of
                        [] \<Rightarrow> None
                      | sep # r3 \<Rightarrow>
                          if takeWhile isCoordChar r3 = [] then None
                          else Some ([c], g2, takeWhile isCoordChar r3)))
          else None)"

fun regexMatch :: "string \<Rightarrow> (string \<times> string \<times> string) option" where
  "regexMatch [] = None"
| "regexMatch (c # cs) =
     (case matchAt (c # cs) of Some m \<Rightarrow> Some m | None \<Rightarrow> regexMatch cs)"

text \<open>
  \<^verbatim>\<open>const [_, x, y] = cmd.match(...) || [null, type, 0, 0]\<close>. The array of a match is
  the whole match followed by the three groups, so the pattern \<^verbatim>\<open>[_, x, y]\<close> binds
  \<open>x\<close> to the first group, the command letter, and \<open>y\<close> to the second group, the first
  coordinate; the third group is not read. Without a match \<open>x\<close> is \<open>type\<close> and \<open>y\<close> is
  the number 0, which \<^verbatim>\<open>parseFloat\<close> reads as the string \<^verbatim>\<open>0\<close>.
\<close>

definition destructure :: "string \<Rightarrow> string \<Rightarrow> string \<times> string" where
  "destructure cmd type =
     (case regexMatch cmd of
        Some (g1, g2, g3) \<Rightarrow> (g1, g2)
      | None \<Rightarrow> (type, ''0''))"

datatype segment =
    Coord (command: string) jsnum jsnum
  | Raw (command: string) string

definition parseCommand :: "string \<Rightarrow> segment" where
  "parseCommand cmd =
     (let type = charAt0 cmd
      in if type = ''M'' \<or> type = ''L''
         then Coord type (parseFloat (fst (destructure cmd type)))
                         (parseFloat (snd (destructure cmd type)))
         else Raw type cmd)"

definition parsePath :: "string \<Rightarrow> segment list" where
  "parsePath pathData = map parseCommand (splitCommands pathData)"

text \<open>\<^verbatim>\<open>xs.join(sep)\<close>.\<close>

fun joinWith :: "string \<Rightarrow> string list \<Rightarrow> string" where
  "joinWith sep [] = []"
| "joinWith sep [s] = s"
| "joinWith sep (s # t # ss) = s @ sep @ joinWith sep (t # ss)"

text \<open>The coordinates of a segment; a raw segment has none.\<close>

definition segX :: "segment \<Rightarrow> jsnum" where
  "segX seg = (case seg of Coord c a b \<Rightarrow> a | Raw c t \<Rightarrow> Undefined)"

definition segY :: "segment \<Rightarrow> jsnum" where
  "segY seg = (case seg of Coord c a b \<Rightarrow> b | Raw c t \<Rightarrow> Undefined)"

text \<open>
  \<^verbatim>\<open>stringifyPath\<close> tests the command of a segment. A segment with command M or L
  prints its coordinates. Any other segment yields its raw text; a missing one is
  \<^verbatim>\<open>undefined\<close>, which \<^verbatim>\<open>join\<close> prints as the empty string.
\<close>

definition stringifySegment :: "(real \<Rightarrow> string) \<Rightarrow> segment \<Rightarrow> string" where
  "stringifySegment fmt seg =
     (if command seg = ''M'' \<or> command seg = ''L''
      then command seg @ '' '' @ numberToString fmt (segX seg) @ '' ''
             @ numberToString fmt (segY seg)
      else (case seg of Coord c a b \<Rightarrow> [] | Raw c t \<Rightarrow> t))"

definition stringifyPath :: "(real \<Rightarrow> string) \<Rightarrow> segment list \<Rightarrow> string" where
  "stringifyPath fmt segments = joinWith '' '' (map (stringifySegment fmt) segments)"

section \<open>Scene elements and geometry\<close>

text \<open>
  An animation descriptor. \<open>None\<close> is a field that is \<^verbatim>\<open>null\<close> or not set. A scene
  element holds copies of the descriptors applied to it.
\<close>

record animation =
  a_id :: string
  a_elementId :: string
  a_type :: string
  a_attributeName :: string
  a_from :: "real option"
  a_to :: "real option"
  a_path :: "string option"
  a_keyTimes :: "string option"
  a_values :: "string option"
  a_dur :: real
  a_repeatCount :: string
  a_name :: string
  a_motionType :: "string option"
  a_intensity :: "real option"
  a_beginTime :: "real option"

text \<open>
  A scene element is an object with a \<^verbatim>\<open>type\<close> string and the fields of that type. The
  record has every field that the source gives to an element. A numeric field that the
  constructor of an element does not set is \<open>Undefined\<close>. A text field is present or
  missing by the type of the element and is never removed; a missing one is empty here.
\<close>

datatype etype = Rect | Circle | Ellipse | Text | Path

record element =
  e_id :: string
  e_type :: etype
  e_x :: jsnum
  e_y :: jsnum
  e_width :: jsnum
  e_height :: jsnum
  e_cx :: jsnum
  e_cy :: jsnum
  e_r :: jsnum
  e_rx :: jsnum
  e_ry :: jsnum
  e_text :: string
  e_fontSize :: jsnum
  e_fontFamily :: string
  e_d :: string
  e_fill :: string
  e_stroke :: string
  e_strokeWidth :: jsnum
  e_strokeDasharray :: "string option"
  e_filter :: "string option"
  e_animations :: "animation list option"

text \<open>A pointer position in scene coordinates, and a pair of numbers kept in a state cell.\<close>

record point =
  p_x :: real
  p_y :: real

record position =
  q_x :: jsnum
  q_y :: jsnum

record bbox =
  b_x :: jsnum
  b_y :: jsnum
  b_width :: jsnum
  b_height :: jsnum

text \<open>
  One round of the \<^verbatim>\<open>forEach\<close> of \<^verbatim>\<open>getBoundingBox\<close> over the running
  \<open>(minX, minY, maxX, maxY)\<close>.
\<close>

definition bboxStep :: "jsnum \<times> jsnum \<times> jsnum \<times> jsnum \<Rightarrow> string
    \<Rightarrow> jsnum \<times> jsnum \<times> jsnum \<times> jsnum" where
  "bboxStep acc cmd =
     (case acc of (minX, minY, maxX, maxY) \<Rightarrow>
        (let type = charAt0 cmd
         in if type = ''M'' \<or> type = ''L''
            then (let numX = parseFloat (fst (destructure cmd type));
                      numY = parseFloat (snd (destructure cmd type))
                  in (jsMin minX numX, jsMin minY numY, jsMax maxX numX, jsMax maxY numY))
            else acc))"

definition getBoundingBox :: "element \<Rightarrow> bbox" where
  "getBoundingBox pathElement =
     (if e_type pathElement \<noteq> Path
      then \<lparr>b_x = Num 0, b_y = Num 0, b_width = Num 0, b_height = Num 0\<rparr>
      else (case foldl bboxStep (PInf, PInf, NInf, NInf) (splitCommands (e_d pathElement)) of
              (minX, minY, maxX, maxY) \<Rightarrow>
                \<lparr>b_x = minX, b_y = minY, b_width = jsSub maxX minX, b_height = jsSub maxY minY\<rparr>))"

text \<open>
  The hit test. For an ellipse, \<^verbatim>\<open>element.rx || 0\<close> puts 0 for a radius that is
  missing or zero, and the test returns \<^verbatim>\<open>false\<close> before it divides by such a radius.
\<close>

definition isPointInElement :: "point \<Rightarrow> element \<Rightarrow> bool" where
  "isPointInElement pt el =
     (case e_type el of
        Rect \<Rightarrow>
          jsLe (e_x el) (Num (p_x pt)) \<and>
          jsLe (Num (p_x pt)) (jsAdd (e_x el) (e_width el)) \<and>
          jsLe (e_y el) (Num (p_y pt)) \<and>
          jsLe (Num (p_y pt)) (jsAdd (e_y el) (e_height el))
      | Circle \<Rightarrow>
          (let dx = jsSub (Num (p_x pt)) (e_cx el);
               dy = jsSub (Num (p_y pt)) (e_cy el)
           in jsLe (jsAdd (jsMul dx dx) (jsMul dy dy)) (jsMul (e_r el) (e_r el)))
      | Ellipse \<Rightarrow>
          (let rx = jsOr (e_rx el) (Num 0);
               ry = jsOr (e_ry el) (Num 0)
           in if rx = Num 0 \<or> ry = Num 0 then False
              else (let dx = jsDiv (jsSub (Num (p_x pt)) (e_cx el)) rx;
                        dy = jsDiv (jsSub (Num (p_y pt)) (e_cy el)) ry
                    in jsLe (jsAdd (jsMul dx dx) (jsMul dy dy)) (Num 1)))
      | Text \<Rightarrow>
          (let textWidth = jsMul (Num (real (length (e_text el))))
                             (jsMul (e_fontSize el) (Num 0.6));
               textHeight = jsMul (e_fontSize el) (Num 1.2)
           in jsLe (e_x el) (Num (p_x pt)) \<and>
              jsLe (Num (p_x pt)) (jsAdd (e_x el) textWidth) \<and>
              jsLe (jsSub (e_y el) textHeight) (Num (p_y pt)) \<and>
              jsLe (Num (p_y pt)) (e_y el))
      | Path \<Rightarrow>
          (let box = getBoundingBox el; buffer = Num 5
           in jsLe (jsSub (b_x box) buffer) (Num (p_x pt)) \<and>
              jsLe (Num (p_x pt)) (jsAdd (jsAdd (b_x box) (b_width box)) buffer) \<and>
              jsLe (jsSub (b_y box) buffer) (Num (p_y pt)) \<and>
              jsLe (Num (p_y pt)) (jsAdd (jsAdd (b_y box) (b_height box)) buffer)))"

section \<open>Editor state\<close>

text \<open>
  The state is the component's \<^verbatim>\<open>useState\<close> cells that the handlers below use. A
  handler reads the cells of the current render and issues setter calls; the model
  returns the state of the next render.
\<close>

record dims =
  d_width :: jsnum
  d_height :: jsnum

record editor =
  elements :: "element list"
  selectedElement :: "element option"
  draggedElement :: "element option"
  offset :: position
  isDrawing :: bool
  drawingPath :: string
  pathPoints :: "point list"
  gridSize :: real
  snapToGrid :: bool
  history :: "element list list"
  historyIndex :: int
  isResizing :: bool
  resizeDirection :: string
  initialSize :: dims
  initialPosition :: position

definition initialEditor :: editor where
  "initialEditor =
     \<lparr>elements = [], selectedElement = None, draggedElement = None,
      offset = \<lparr>q_x = Num 0, q_y = Num 0\<rparr>, isDrawing = False, drawingPath = [],
      pathPoints = [], gridSize = 20, snapToGrid = True, history = [], historyIndex = - 1,
      isResizing = False, resizeDirection = [],
      initialSize = \<lparr>d_width = Num 0, d_height = Num 0\<rparr>,
      initialPosition = \<lparr>q_x = Num 0, q_y = Num 0\<rparr>\<rparr>"

text \<open>
  The grid size is 20 in the first render and no code assigns to it; the model reads it
  from the state.
\<close>

definition snapToGridValue :: "editor \<Rightarrow> jsnum \<Rightarrow> jsnum" where
  "snapToGridValue st v =
     (if snapToGrid st
      then jsMul (jsRound (jsDiv v (Num (gridSize st)))) (Num (gridSize st))
      else v)"

definition blankElement :: element where
  "blankElement =
     \<lparr>e_id = [], e_type = Rect, e_x = Undefined, e_y = Undefined, e_width = Undefined,
      e_height = Undefined, e_cx = Undefined, e_cy = Undefined, e_r = Undefined,
      e_rx = Undefined, e_ry = Undefined, e_text = [], e_fontSize = Undefined,
      e_fontFamily = [], e_d = [], e_fill = [], e_stroke = [], e_strokeWidth = Undefined,
      e_strokeDasharray = None, e_filter = None, e_animations = None\<rparr>"

text \<open>The identifier made by \<^verbatim>\<open>generateId()\<close> from clock and random source is an input.\<close>

definition createRectangle :: "editor \<Rightarrow> string \<Rightarrow> real \<Rightarrow> real \<Rightarrow> real \<Rightarrow> real \<Rightarrow> element" where
  "createRectangle st newId px py w h =
     blankElement\<lparr>e_id := newId, e_type := Rect,
       e_x := snapToGridValue st (Num px), e_y := snapToGridValue st (Num py),
       e_width := Num w, e_height := Num h,
       e_fill := ''#ADD8E6'', e_stroke := ''#0000FF'', e_strokeWidth := Num 2\<rparr>"


definition createText :: "editor \<Rightarrow> string \<Rightarrow> real \<Rightarrow> real \<Rightarrow> string \<Rightarrow> element" where
  "createText st newId px py txt =
     blankElement\<lparr>e_id := newId, e_type := Text,
       e_x := snapToGridValue st (Num px), e_y := snapToGridValue st (Num py), e_text := txt,
       e_fontSize := Num 20, e_fontFamily := ''Arial'', e_fill := ''black''\<rparr>"

text \<open>
  The \<^verbatim>\<open>reduce\<close> that turns captured points into path data: \<^verbatim>\<open>M x y\<close> for the
  first point, then \<^verbatim>\<open>L x y\<close> appended for each further one.
\<close>

definition pointText :: "(real \<Rightarrow> string) \<Rightarrow> point \<Rightarrow> string" where
  "pointText fmt q = numberToString fmt (Num (p_x q)) @ '' '' @ numberToString fmt (Num (p_y q))"

definition pointsToPathData :: "(real \<Rightarrow> string) \<Rightarrow> point list \<Rightarrow> string" where
  "pointsToPathData fmt points =
     (case points of
        [] \<Rightarrow> []
      | q # qs \<Rightarrow> foldl (\<lambda>acc q'. acc @ '' L '' @ pointText fmt q') (''M '' @ pointText fmt q) qs)"

definition createPath :: "(real \<Rightarrow> string) \<Rightarrow> string \<Rightarrow> point list \<Rightarrow> element" where
  "createPath fmt newId points =
     blankElement\<lparr>e_id := newId, e_type := Path, e_d := pointsToPathData fmt points,
       e_fill := ''none'', e_stroke := ''red'', e_strokeWidth := Num 2\<rparr>"

text \<open>\<^verbatim>\<open>findIndex\<close>: the first position that satisfies the test; \<open>None\<close> for \<open>-1\<close>.\<close>

fun findIndex :: "('a \<Rightarrow> bool) \<Rightarrow> 'a list \<Rightarrow> nat option" where
  "findIndex P [] = None"
| "findIndex P (a # as) = (if P a then Some 0 else map_option Suc (findIndex P as))"

section \<open>Pointer handlers\<close>

text \<open>
  The branch of \<^verbatim>\<open>handleMouseDown\<close> taken in select mode when an element \<open>sel\<close> is
  selected and the target is a resize handle with the given direction. It captures the
  size and the position of the element: \<^verbatim>\<open>width || r * 2\<close> and \<^verbatim>\<open>x || cx - r\<close>.
\<close>

definition resizeHandleDown :: "editor \<Rightarrow> element \<Rightarrow> string \<Rightarrow> editor" where
  "resizeHandleDown st sel direction =
     st\<lparr>isResizing := True, resizeDirection := direction,
        initialSize :=
          \<lparr>d_width = jsOr (e_width sel) (jsMul (e_r sel) (Num 2)),
           d_height = jsOr (e_height sel) (jsMul (e_r sel) (Num 2))\<rparr>,
        initialPosition :=
          \<lparr>q_x = jsOr (e_x sel) (jsSub (e_cx sel) (e_r sel)),
           q_y = jsOr (e_y sel) (jsSub (e_cy sel) (e_r sel))\<rparr>\<rparr>"

text \<open>
  The resize of a rectangle or text. \<^verbatim>\<open>resizeDirection.includes('e')\<close> tests for a
  character of the direction string. \<open>None\<close> stands for a variable left
  \<^verbatim>\<open>undefined\<close>, whose field is then not written.
\<close>

definition resizeBox :: "editor \<Rightarrow> point \<Rightarrow> element \<Rightarrow> element" where
  "resizeBox st svgPoint el =
     (let deltaX = jsSub (Num (p_x svgPoint)) (q_x (initialPosition st));
          deltaY = jsSub (Num (p_y svgPoint)) (q_y (initialPosition st));
          dir = set (resizeDirection st);
          iw = d_width (initialSize st);
          ih = d_height (initialSize st);
          widthE = (if CHR ''e'' \<in> dir
                    then Some (snapToGridValue st (jsMax (Num 20) (jsAdd iw deltaX)))
                    else None);
          widthW = snapToGridValue st (jsMax (Num 20) (jsSub iw deltaX));
          newWidth = (if CHR ''w'' \<in> dir then Some widthW else widthE);
          newX = (if CHR ''w'' \<in> dir
                  then Some (snapToGridValue st
                               (jsSub (jsAdd (q_x (initialPosition st)) iw) widthW))
                  else None);
          heightS = (if CHR ''s'' \<in> dir
                     then Some (snapToGridValue st (jsMax (Num 20) (jsAdd ih deltaY)))
                     else None);
          heightN = snapToGridValue st (jsMax (Num 20) (jsSub ih deltaY));
          newHeight = (if CHR ''n'' \<in> dir then Some heightN else heightS);
          newY = (if CHR ''n'' \<in> dir
                  then Some (snapToGridValue st
                               (jsSub (jsAdd (q_y (initialPosition st)) ih) heightN))
                  else None);
          el1 = (case newWidth of Some w \<Rightarrow> el\<lparr>e_width := w\<rparr> | None \<Rightarrow> el);
          el2 = (case newHeight of Some h \<Rightarrow> el1\<lparr>e_height := h\<rparr> | None \<Rightarrow> el1);
          el3 = (case newX of Some v \<Rightarrow> el2\<lparr>e_x := v\<rparr> | None \<Rightarrow> el2)
      in (case newY of Some v \<Rightarrow> el3\<lparr>e_y := v\<rparr> | None \<Rightarrow> el3))"

definition resizeCircle :: "editor \<Rightarrow> point \<Rightarrow> element \<Rightarrow> element" where
  "resizeCircle st svgPoint el =
     (let dx = jsSub (Num (p_x svgPoint)) (e_cx el);
          dy = jsSub (Num (p_y svgPoint)) (e_cy el)
      in el\<lparr>e_r := snapToGridValue st
                      (jsMax (Num 10) (jsSqrt (jsAdd (jsMul dx dx) (jsMul dy dy))))\<rparr>)"

text \<open>
  The resize branch looks the selected element up by identifier and returns at once
  when it is gone. The source then changes the found object in place, so whatever else
  holds the object (a recorded snapshot, the selection) sees the change; the model
  updates the element list.
\<close>

definition resizeMove :: "editor \<Rightarrow> point \<Rightarrow> element \<Rightarrow> editor" where
  "resizeMove st svgPoint sel =
     (case findIndex (\<lambda>el. e_id el = e_id sel) (elements st) of
        None \<Rightarrow> st
      | Some index \<Rightarrow>
          (let el = elements st ! index;
               el' = (if e_type el = Rect \<or> e_type el = Text then resizeBox st svgPoint el
                      else if e_type el = Circle then resizeCircle st svgPoint el
                      else el)
           in st\<lparr>elements := (elements st)[index := el']\<rparr>))"

text \<open>The translation of a dragged path, on the path data captured at the start of the drag.\<close>

definition translateCommand :: "(real \<Rightarrow> string) \<Rightarrow> jsnum \<Rightarrow> jsnum \<Rightarrow> string \<Rightarrow> string" where
  "translateCommand fmt translateX translateY cmd =
     (let type = charAt0 cmd
      in if type = ''M'' \<or> type = ''L''
         then type @ '' ''
                @ numberToString fmt (jsAdd (parseFloat (fst (destructure cmd type))) translateX)
                @ '' ''
                @ numberToString fmt (jsAdd (parseFloat (snd (destructure cmd type))) translateY)
         else cmd)"

definition dragMove :: "(real \<Rightarrow> string) \<Rightarrow> editor \<Rightarrow> point \<Rightarrow> element \<Rightarrow> editor" where
  "dragMove fmt st svgPoint dragged =
     (case findIndex (\<lambda>el. e_id el = e_id dragged) (elements st) of
        None \<Rightarrow> st
      | Some index \<Rightarrow>
          (let newX = snapToGridValue st (jsSub (Num (p_x svgPoint)) (q_x (offset st)));
               newY = snapToGridValue st (jsSub (Num (p_y svgPoint)) (q_y (offset st)));
               old = elements st ! index;
               new =
                 (if e_type dragged = Rect \<or> e_type dragged = Text
                  then old\<lparr>e_x := newX, e_y := newY\<rparr>
                  else if e_type dragged = Circle
                  then old\<lparr>e_cx := newX, e_cy := newY\<rparr>
                  else if e_type dragged = Path
                  then (let box = getBoundingBox dragged;
                            translateX = jsSub newX (b_x box);
                            translateY = jsSub newY (b_y box)
                        in old\<lparr>e_d := joinWith '' ''
                                 (map (translateCommand fmt translateX translateY)
                                    (splitCommands (e_d dragged)))\<rparr>)
                  else old)
           in st\<lparr>elements := (elements st)[index := new], selectedElement := Some new\<rparr>))"

text \<open>The branch of \<^verbatim>\<open>handleMouseDown\<close> taken in path mode: a drawing starts.\<close>

definition pathModeDown :: "(real \<Rightarrow> string) \<Rightarrow> editor \<Rightarrow> point \<Rightarrow> editor" where
  "pathModeDown fmt st svgPoint =
     st\<lparr>isDrawing := True, pathPoints := [svgPoint],
        drawingPath := ''M '' @ pointText fmt svgPoint\<rparr>"

definition drawMove :: "(real \<Rightarrow> string) \<Rightarrow> editor \<Rightarrow> point \<Rightarrow> editor" where
  "drawMove fmt st svgPoint =
     (let newPoints = pathPoints st @ [svgPoint]
      in st\<lparr>pathPoints := newPoints, drawingPath := pointsToPathData fmt newPoints\<rparr>)"

definition handleMouseMove :: "(real \<Rightarrow> string) \<Rightarrow> editor \<Rightarrow> point \<Rightarrow> editor" where
  "handleMouseMove fmt st svgPoint =
     (if draggedElement st = None \<and> \<not> isDrawing st \<and> \<not> isResizing st then st
      else (case (if isResizing st then selectedElement st else None) of
              Some sel \<Rightarrow> resizeMove st svgPoint sel
            | None \<Rightarrow>
                (case draggedElement st of
                   Some dragged \<Rightarrow> dragMove fmt st svgPoint dragged
                 | None \<Rightarrow> if isDrawing st then drawMove fmt st svgPoint else st)))"

definition handleMouseUp :: "(real \<Rightarrow> string) \<Rightarrow> string \<Rightarrow> editor \<Rightarrow> editor" where
  "handleMouseUp fmt newId st =
     (let st1 =
            (if isDrawing st
             then (let st0 =
                         (if length (pathPoints st) > 1
                          then st\<lparr>elements := elements st @ [createPath fmt newId (pathPoints st)],
                                  selectedElement := Some (createPath fmt newId (pathPoints st))\<rparr>
                          else st)
                   in st0\<lparr>isDrawing := False, pathPoints := [], drawingPath := []\<rparr>)
             else st)
      in st1\<lparr>draggedElement := None, isResizing := False\<rparr>)"

section \<open>History\<close>

text \<open>
  What \<^verbatim>\<open>JSON.stringify\<close> keeps of a scene, as a JSON value: a key whose value is
  \<^verbatim>\<open>undefined\<close> is left out, and \<^verbatim>\<open>NaN\<close> and the infinities are written as
  \<^verbatim>\<open>null\<close>. The keys are taken in one fixed order; a field that is \<open>None\<close> is left
  out.
\<close>

datatype json =
    JNull
  | JNumber real
  | JString string
  | JArray "json list"
  | JObject "(string \<times> json) list"

definition jsonNumber :: "jsnum \<Rightarrow> json option" where
  "jsonNumber v = (case v of Undefined \<Rightarrow> None | Num a \<Rightarrow> Some (JNumber a) | _ \<Rightarrow> Some JNull)"

definition jsonEntry :: "string \<Rightarrow> json option \<Rightarrow> (string \<times> json) list" where
  "jsonEntry k v = (case v of None \<Rightarrow> [] | Some j \<Rightarrow> [(k, j)])"

definition typeName :: "etype \<Rightarrow> string" where
  "typeName t =
     (case t of Rect \<Rightarrow> ''rect'' | Circle \<Rightarrow> ''circle'' | Ellipse \<Rightarrow> ''ellipse''
      | Text \<Rightarrow> ''text'' | Path \<Rightarrow> ''path'')"

definition jsonOfAnimation :: "animation \<Rightarrow> json" where
  "jsonOfAnimation a =
     JObject
       ([(''id'', JString (a_id a)), (''elementId'', JString (a_elementId a)),
         (''type'', JString (a_type a)), (''attributeName'', JString (a_attributeName a))]
        @ jsonEntry ''from'' (map_option JNumber (a_from a))
        @ jsonEntry ''to'' (map_option JNumber (a_to a))
        @ jsonEntry ''path'' (map_option JString (a_path a))
        @ jsonEntry ''keyTimes'' (map_option JString (a_keyTimes a))
        @ jsonEntry ''values'' (map_option JString (a_values a))
        @ [(''dur'', JNumber (a_dur a)), (''repeatCount'', JString (a_repeatCount a)),
           (''name'', JString (a_name a))]
        @ jsonEntry ''motionType'' (map_option JString (a_motionType a))
        @ jsonEntry ''intensity'' (map_option JNumber (a_intensity a))
        @ jsonEntry ''beginTime'' (map_option JNumber (a_beginTime a)))"

definition jsonOfElement :: "element \<Rightarrow> json" where
  "jsonOfElement el =
     JObject
       ([(''id'', JString (e_id el)), (''type'', JString (typeName (e_type el)))]
        @ jsonEntry ''x'' (jsonNumber (e_x el))
        @ jsonEntry ''y'' (jsonNumber (e_y el))
        @ jsonEntry ''width'' (jsonNumber (e_width el))
        @ jsonEntry ''height'' (jsonNumber (e_height el))
        @ jsonEntry ''cx'' (jsonNumber (e_cx el))
        @ jsonEntry ''cy'' (jsonNumber (e_cy el))
        @ jsonEntry ''r'' (jsonNumber (e_r el))
        @ jsonEntry ''rx'' (jsonNumber (e_rx el))
        @ jsonEntry ''ry'' (jsonNumber (e_ry el))
        @ [(''text'', JString (e_text el))]
        @ jsonEntry ''fontSize'' (jsonNumber (e_fontSize el))
        @ [(''fontFamily'', JString (e_fontFamily el)), (''d'', JString (e_d el)),
           (''fill'', JString (e_fill el)), (''stroke'', JString (e_stroke el))]
        @ jsonEntry ''strokeWidth'' (jsonNumber (e_strokeWidth el))
        @ jsonEntry ''strokeDasharray'' (map_option JString (e_strokeDasharray el))
        @ jsonEntry ''filter'' (map_option JString (e_filter el))
        @ jsonEntry ''animations''
            (map_option (\<lambda>as. JArray (map jsonOfAnimation as)) (e_animations el)))"

definition stringify :: "element list \<Rightarrow> json" where
  "stringify els = JArray (map jsonOfElement els)"

text \<open>
  The effect that runs after each change of \<^verbatim>\<open>elements\<close>. It compares
  \<^verbatim>\<open>JSON.stringify(history[historyIndex])\<close> with \<^verbatim>\<open>JSON.stringify(elements)\<close>;
  outside the array \<^verbatim>\<open>history[historyIndex]\<close> is \<^verbatim>\<open>undefined\<close> and so is its
  \<^verbatim>\<open>JSON.stringify\<close>, which differs from every text.
\<close>

definition snapshotAt :: "element list list \<Rightarrow> int \<Rightarrow> element list option" where
  "snapshotAt h i = (if 0 \<le> i \<and> i < int (length h) then Some (h ! nat i) else None)"

text \<open>\<^verbatim>\<open>xs.slice(0, e)\<close>; a negative end counts from the end of the array.\<close>

definition sliceTo :: "'a list \<Rightarrow> int \<Rightarrow> 'a list" where
  "sliceTo xs e = (if e < 0 then take (nat (int (length xs) + e)) xs else take (nat e) xs)"

definition recordHistory :: "editor \<Rightarrow> editor" where
  "recordHistory st =
     (if elements st \<noteq> [] \<and>
         (history st = [] \<or>
          map_option stringify (snapshotAt (history st) (historyIndex st))
            \<noteq> Some (stringify (elements st)))
      then (let newHistory = sliceTo (history st) (historyIndex st + 1) @ [elements st]
            in st\<lparr>history := newHistory, historyIndex := int (length newHistory) - 1\<rparr>)
      else st)"

text \<open>
  The undo and redo branch of \<^verbatim>\<open>handleKeyDown\<close> (key \<^verbatim>\<open>z\<close> with Ctrl or Meta; with
  Shift it is redo). Spreading \<^verbatim>\<open>history[i]\<close> for an index outside the array throws
  a \<^verbatim>\<open>TypeError\<close>.
\<close>

datatype error = TypeError

definition spreadSnapshot :: "element list list \<Rightarrow> int \<Rightarrow> error + element list" where
  "spreadSnapshot h i = (case snapshotAt h i of None \<Rightarrow> Inl TypeError | Some s \<Rightarrow> Inr s)"

definition handleKeyDownZ :: "bool \<Rightarrow> editor \<Rightarrow> error + editor" where
  "handleKeyDownZ shiftKey st =
     (if shiftKey then
        (if historyIndex st < int (length (history st)) - 1
         then (case spreadSnapshot (history st) (historyIndex st + 1) of
                 Inl e \<Rightarrow> Inl e
               | Inr s \<Rightarrow> Inr (st\<lparr>historyIndex := historyIndex st + 1, elements := s\<rparr>))
         else Inr st)
      else
        (if historyIndex st > 0
         then (case spreadSnapshot (history st) (historyIndex st - 1) of
                 Inl e \<Rightarrow> Inl e
               | Inr s \<Rightarrow> Inr (st\<lparr>historyIndex := historyIndex st - 1, elements := s\<rparr>))
         else Inr st))"

text \<open>An undo or redo as the user sees it: the key handler, then the history effect.\<close>

definition undo :: "editor \<Rightarrow> error + editor" where
  "undo st = (case handleKeyDownZ False st of Inl e \<Rightarrow> Inl e | Inr st' \<Rightarrow> Inr (recordHistory st'))"

definition redo :: "editor \<Rightarrow> error + editor" where
  "redo st = (case handleKeyDownZ True st of Inl e \<Rightarrow> Inl e | Inr st' \<Rightarrow> Inr (recordHistory st'))"

fun repeated :: "nat \<Rightarrow> (editor \<Rightarrow> error + editor) \<Rightarrow> editor \<Rightarrow> error + editor" where
  "repeated 0 f st = Inr st"
| "repeated (Suc n) f st = (case f st of Inl e \<Rightarrow> Inl e | Inr st' \<Rightarrow> repeated n f st')"

text \<open>
  The Undo and Redo buttons of the toolbar are a second path. Their handler is
  \<^verbatim>\<open>historyIndex > 0 && setHistoryIndex(historyIndex - 1) && setElements(...)\<close>; the
  call of \<^verbatim>\<open>setHistoryIndex\<close> returns \<^verbatim>\<open>undefined\<close>, so the conjunction stops there
  and \<^verbatim>\<open>setElements\<close> is not called: the index moves and the scene stays.
\<close>

definition toolbarUndo :: "editor \<Rightarrow> editor" where
  "toolbarUndo st =
     (if historyIndex st > 0 then st\<lparr>historyIndex := historyIndex st - 1\<rparr> else st)"

definition toolbarRedo :: "editor \<Rightarrow> editor" where
  "toolbarRedo st =
     (if historyIndex st < int (length (history st)) - 1
      then st\<lparr>historyIndex := historyIndex st + 1\<rparr> else st)"

text \<open>
  An edit replaces the element list by a new one (\<^verbatim>\<open>setElements\<close>), and the effect
  runs. The edit is recorded when the effect's condition holds for the new list. The
  field writes of a resize step change an element object that recorded snapshots may
  share; they are no edits in this sense.
\<close>

definition applyEdit :: "element list \<Rightarrow> editor \<Rightarrow> editor" where
  "applyEdit s st = recordHistory (st\<lparr>elements := s\<rparr>)"

definition recorded :: "element list \<Rightarrow> editor \<Rightarrow> bool" where
  "recorded s st =
     (s \<noteq> [] \<and>
      (history st = [] \<or>
       map_option stringify (snapshotAt (history st) (historyIndex st)) \<noteq> Some (stringify s)))"

fun applyEdits :: "element list list \<Rightarrow> editor \<Rightarrow> editor" where
  "applyEdits [] st = st"
| "applyEdits (s # ss) st = applyEdits ss (applyEdit s st)"

fun allRecorded :: "element list list \<Rightarrow> editor \<Rightarrow> bool" where
  "allRecorded [] st = True"
| "allRecorded (s # ss) st = (recorded s st \<and> allRecorded ss (applyEdit s st))"

section \<open>Path animations\<close>

text \<open>
  The generators of keyframe values. \<^verbatim>\<open>Math.random()\<close> is an input: \<open>rnd k\<close> is the
  value of the \<open>k\<close>-th call, and the functions thread the number of calls made so far.
  One \<^verbatim>\<open>pathSegments.map\<close> of the two random generators follows; \<open>off\<close> turns a
  random draw into the displacement of a coordinate.
\<close>

fun randomSegments :: "(nat \<Rightarrow> real) \<Rightarrow> (real \<Rightarrow> real) \<Rightarrow> nat \<Rightarrow> segment list
    \<Rightarrow> segment list \<times> nat" where
  "randomSegments rnd off k [] = ([], k)"
| "randomSegments rnd off k (seg # segs) =
     (if command seg = ''M'' \<or> command seg = ''L''
      then (Coord (command seg) (jsAdd (segX seg) (Num (off (rnd k))))
                                (jsAdd (segY seg) (Num (off (rnd (k + 1)))))
              # fst (randomSegments rnd off (k + 2) segs),
            snd (randomSegments rnd off (k + 2) segs))
      else (seg # fst (randomSegments rnd off k segs), snd (randomSegments rnd off k segs)))"

text \<open>The \<^verbatim>\<open>for\<close> loop of the random generators: \<open>n\<close> rounds, from call number \<open>k\<close>.\<close>

fun randomVariations :: "(real \<Rightarrow> string) \<Rightarrow> (nat \<Rightarrow> real) \<Rightarrow> (real \<Rightarrow> real) \<Rightarrow> segment list
    \<Rightarrow> nat \<Rightarrow> nat \<Rightarrow> string list" where
  "randomVariations fmt rnd off segs 0 k = []"
| "randomVariations fmt rnd off segs (Suc n) k =
     stringifyPath fmt (fst (randomSegments rnd off k segs))
       # randomVariations fmt rnd off segs n (snd (randomSegments rnd off k segs))"

definition generatePathVariations :: "(real \<Rightarrow> string) \<Rightarrow> (nat \<Rightarrow> real) \<Rightarrow> string \<Rightarrow> nat \<Rightarrow> real
    \<Rightarrow> string" where
  "generatePathVariations fmt rnd pathData numVariations intensity =
     joinWith '';''
       (randomVariations fmt rnd (\<lambda>u. (u - 0.5) * 20 * intensity) (parsePath pathData)
          numVariations 0 @ [pathData])"

definition generateJitterPaths :: "(real \<Rightarrow> string) \<Rightarrow> (nat \<Rightarrow> real) \<Rightarrow> string \<Rightarrow> real \<Rightarrow> nat
    \<Rightarrow> string" where
  "generateJitterPaths fmt rnd pathData intensity numVariations =
     joinWith '';''
       (randomVariations fmt rnd (\<lambda>u. (u - 0.5) * intensity) (parsePath pathData)
          numVariations 0 @ [pathData])"

text \<open>The \<^verbatim>\<open>map\<close> of the wave generator, from segment number \<open>index\<close>.\<close>

fun waveSegments :: "real \<Rightarrow> real \<Rightarrow> nat \<Rightarrow> segment list \<Rightarrow> segment list" where
  "waveSegments phase intensity index [] = []"
| "waveSegments phase intensity index (seg # segs) =
     (if command seg = ''M'' \<or> command seg = ''L''
      then (let waveOffset = sin (phase + real index * 0.5) * intensity
            in Coord (command seg) (jsAdd (segX seg) (Num waveOffset))
                                   (jsAdd (segY seg) (Num (waveOffset * 0.5))))
      else seg) # waveSegments phase intensity (index + 1) segs"

definition generateWavePaths :: "(real \<Rightarrow> string) \<Rightarrow> string \<Rightarrow> real \<Rightarrow> nat \<Rightarrow> string" where
  "generateWavePaths fmt pathData intensity numVariations =
     joinWith '';''
       (map (\<lambda>i. stringifyPath fmt
                 (waveSegments (real i / real numVariations * pi * 2) intensity 0
                    (parsePath pathData)))
          [0..<numVariations] @ [pathData])"

text \<open>
  The click handler of the button Path Morph, on the list of descriptors; the
  identifier built from the clock is an input.
\<close>

definition addPathMorph :: "(real \<Rightarrow> string) \<Rightarrow> (nat \<Rightarrow> real) \<Rightarrow> string \<Rightarrow> element option
    \<Rightarrow> animation list \<Rightarrow> animation list" where
  "addPathMorph fmt rnd newId selected animations =
     (case selected of
        None \<Rightarrow> animations
      | Some el \<Rightarrow>
          animations @
            [\<lparr>a_id = newId, a_elementId = e_id el, a_type = ''motion'', a_attributeName = ''d'',
              a_from = None, a_to = None,
              a_path = (if e_type el = Path then Some (e_d el) else None),
              a_keyTimes = Some ''0;0.25;0.5;0.75;1'',
              a_values = (if e_type el = Path
                          then Some (generatePathVariations fmt rnd (e_d el) 5 0.5)
                          else None),
              a_dur = 5, a_repeatCount = ''indefinite'',
              a_name = ''Path Morph '' @ natToString (length animations + 1),
              a_motionType = None, a_intensity = None, a_beginTime = None\<rparr>])"

text \<open>The strategy that the intensity handler reads: \<^verbatim>\<open>anim.motionType || 'morph'\<close>.\<close>

definition motionTypeOf :: "animation \<Rightarrow> string" where
  "motionTypeOf anim =
     (case a_motionType anim of None \<Rightarrow> ''morph'' | Some m \<Rightarrow> if m = [] then ''morph'' else m)"

definition variationsFor :: "(real \<Rightarrow> string) \<Rightarrow> (nat \<Rightarrow> real) \<Rightarrow> string \<Rightarrow> string \<Rightarrow> real
    \<Rightarrow> string" where
  "variationsFor fmt rnd motionType path intensity =
     (if motionType = ''jitter'' then generateJitterPaths fmt rnd path intensity 5
      else if motionType = ''wave'' then generateWavePaths fmt path intensity 5
      else generatePathVariations fmt rnd path 5 (intensity / 10))"

text \<open>
  The change handler of the intensity slider. The slider is rendered for the selected
  descriptor \<open>anim\<close> when its type is \<^verbatim>\<open>motion\<close> and its path is set and not empty.
\<close>

definition intensityOnChange :: "(real \<Rightarrow> string) \<Rightarrow> (nat \<Rightarrow> real) \<Rightarrow> animation list
    \<Rightarrow> string option \<Rightarrow> real \<Rightarrow> animation list" where
  "intensityOnChange fmt rnd animations selectedAnimationId intensity =
     (case selectedAnimationId of
        None \<Rightarrow> animations
      | Some sel \<Rightarrow>
          (case List.find (\<lambda>a. a_id a = sel) animations of
             None \<Rightarrow> animations
           | Some anim \<Rightarrow>
               (case a_path anim of
                  None \<Rightarrow> animations
                | Some path \<Rightarrow>
                    if a_type anim = ''motion'' \<and> path \<noteq> [] then
                      (case findIndex (\<lambda>a. a_id a = sel) animations of
                         None \<Rightarrow> animations
                       | Some index \<Rightarrow>
                           animations[index := (animations ! index)
                             \<lparr>a_intensity := Some intensity,
                              a_values := Some (variationsFor fmt rnd (motionTypeOf anim) path
                                                  intensity)\<rparr>])
                    else animations)))"

text \<open>The change handler of the motion type selector, rendered under the same condition.\<close>

definition motionTypeOnChange :: "animation list \<Rightarrow> string option \<Rightarrow> string \<Rightarrow> animation list" where
  "motionTypeOnChange animations selectedAnimationId motionType =
     (case selectedAnimationId of
        None \<Rightarrow> animations
      | Some sel \<Rightarrow>
          (case List.find (\<lambda>a. a_id a = sel) animations of
             None \<Rightarrow> animations
           | Some anim \<Rightarrow>
               (case a_path anim of
                  None \<Rightarrow> animations
                | Some path \<Rightarrow>
                    if a_type anim = ''motion'' \<and> path \<noteq> [] then
                      (case findIndex (\<lambda>a. a_id a = sel) animations of
                         None \<Rightarrow> animations
                       | Some index \<Rightarrow>
                           animations[index := (animations ! index)
                             \<lparr>a_motionType := Some motionType\<rparr>])
                    else animations)))"

text \<open>
  The entries of a keyframe value list: the text between semicolons. The scan keeps the
  entry read so far, reversed, in \<open>cur\<close>.
\<close>

fun entriesFrom :: "string \<Rightarrow> string \<Rightarrow> string list" where
  "entriesFrom cur [] = [rev cur]"
| "entriesFrom cur (c # cs) =
     (if c = CHR '';'' then rev cur # entriesFrom [] cs else entriesFrom (c # cur) cs)"

definition keyframeEntries :: "string \<Rightarrow> string list" where
  "keyframeEntries vals = entriesFrom [] vals"

section \<open>State predicates and sample inputs\<close>

text \<open>
  The current scene is the snapshot at the current history index. The effect establishes
  this whenever it records, and undo and redo keep it.
\<close>

definition synced :: "editor \<Rightarrow> bool" where
  "synced st = (snapshotAt (history st) (historyIndex st) = Some (elements st))"

text \<open>
  Outside a drawing gesture there are no captured points and no preview path. The three
  cells are written together at three places only: pointer-down in path mode (which sets
  \<^verbatim>\<open>isDrawing\<close>), the drawing branch of pointer-move, and pointer-up.
\<close>

definition idleClean :: "editor \<Rightarrow> bool" where
  "idleClean st = (isDrawing st \<or> (pathPoints st = [] \<and> drawingPath st = []))"

text \<open>Sample inputs for the closed examples.\<close>

definition evenDraws :: "nat \<Rightarrow> real" where
  "evenDraws k = 1 / 2"

definition sampleRect :: element where
  "sampleRect = createRectangle initialEditor ''element-1'' 0 0 100 80"

definition samplePath :: element where
  "samplePath = createPath positional ''element-2'' [\<lparr>p_x = 10, p_y = 20\<rparr>, \<lparr>p_x = 30, p_y = 40\<rparr>]"



definition sampleText :: element where
  "sampleText = createText initialEditor ''element-6'' 100 100 ''Text''"

definition sampleCurve :: element where
  "sampleCurve = blankElement\<lparr>e_id := ''element-5'', e_type := Path, e_d := ''C 1 2 3 4 5 6 Z''\<rparr>"


text \<open>A pointer-down on the south-east handle of the selected \<open>sampleText\<close>.\<close>

definition textResizeStart :: editor where
  "textResizeStart =
     resizeHandleDown
       (initialEditor\<lparr>elements := [sampleText], selectedElement := Some sampleText\<rparr>)
       sampleText ''se''"

text \<open>The editor after its first recorded edit, the creation of \<open>sampleRect\<close>.\<close>

definition oneRect :: editor where
  "oneRect = applyEdit [sampleRect] initialEditor"

text \<open>A drag whose element has left the scene.\<close>

definition staleDrag :: editor where
  "staleDrag = initialEditor\<lparr>elements := [sampleRect], draggedElement := Some samplePath\<rparr>"

text \<open>A resize whose selected element has left the scene.\<close>

definition staleResize :: editor where
  "staleResize =
     initialEditor\<lparr>elements := [sampleRect], selectedElement := Some samplePath,
       isResizing := True, resizeDirection := ''se''\<rparr>"

text \<open>A drawing gesture with one captured point.\<close>

definition onePointDrawing :: editor where
  "onePointDrawing =
     initialEditor\<lparr>elements := [sampleRect], isDrawing := True,
       pathPoints := [\<lparr>p_x = 10, p_y = 20\<rparr>], drawingPath := ''M 10 20''\<rparr>"

definition sampleAnimations :: "animation list" where
  "sampleAnimations = addPathMorph positional evenDraws ''anim-1'' (Some samplePath) []"

section \<open>Auxiliary facts\<close>

lemma findIndex_None: "(findIndex P xs = None) = (\<forall>a \<in> set xs. \<not> P a)"
  by (induction xs) auto

lemma findIndex_Some: "findIndex P xs = Some i \<Longrightarrow> i < length xs \<and> P (xs ! i)"
  by (induction xs arbitrary: i) (auto split: if_splits)

lemma find_findIndex:
  "List.find P xs = Some a \<Longrightarrow> \<exists>i. findIndex P xs = Some i \<and> xs ! i = a"
  by (induction xs) (auto split: if_splits)

lemma findIndex_update:
  "findIndex P xs = Some i \<Longrightarrow> P y \<Longrightarrow> findIndex P (xs[i := y]) = Some i"
proof (induction xs arbitrary: i)
  case Nil
  then show ?case by simp
next
  case (Cons a xs)
  then show ?case by (cases i) (auto split: if_splits)
qed

lemma find_update:
  "findIndex P xs = Some i \<Longrightarrow> P y \<Longrightarrow> List.find P (xs[i := y]) = Some y"
proof (induction xs arbitrary: i)
  case Nil
  then show ?case by simp
next
  case (Cons a xs)
  then show ?case by (cases i) (auto split: if_splits)
qed

text \<open>The history effect writes the history and its index, and no other cell.\<close>

lemma recordHistory_cells:
  "recordHistory st = st\<lparr>history := history (recordHistory st),
                          historyIndex := historyIndex (recordHistory st)\<rparr>"
  by (simp add: recordHistory_def Let_def)

section \<open>Resize clamp\<close>







lemma resizeBox_width:
  "e_width (resizeBox st pt el) =
     (if CHR ''w'' \<in> set (resizeDirection st)
      then snapToGridValue st
             (jsMax (Num 20) (jsSub (d_width (initialSize st))
                                (jsSub (Num (p_x pt)) (q_x (initialPosition st)))))
      else if CHR ''e'' \<in> set (resizeDirection st)
      then snapToGridValue st
             (jsMax (Num 20) (jsAdd (d_width (initialSize st))
                                (jsSub (Num (p_x pt)) (q_x (initialPosition st)))))
      else e_width el)"
  by (simp add: resizeBox_def Let_def)

lemma resizeBox_height:
  "e_height (resizeBox st pt el) =
     (if CHR ''n'' \<in> set (resizeDirection st)
      then snapToGridValue st
             (jsMax (Num 20) (jsSub (d_height (initialSize st))
                                (jsSub (Num (p_y pt)) (q_y (initialPosition st)))))
      else if CHR ''s'' \<in> set (resizeDirection st)
      then snapToGridValue st
             (jsMax (Num 20) (jsAdd (d_height (initialSize st))
                                (jsSub (Num (p_y pt)) (q_y (initialPosition st)))))
      else e_height el)"
  by (simp add: resizeBox_def Let_def)

lemma handleMouseMove_resizeBox:
  assumes "isResizing st" "selectedElement st = Some sel"
    "findIndex (\<lambda>el. e_id el = e_id sel) (elements st) = Some i"
    "e_type (elements st ! i) = Rect \<or> e_type (elements st ! i) = Text"
  shows "elements (handleMouseMove fmt st pt) ! i = resizeBox st pt (elements st ! i)"
  using assms findIndex_Some[OF assms(3)]
  by (auto simp: handleMouseMove_def resizeMove_def Let_def)



text \<open>
  Apart from the grid, the size captured at pointer-down matters. A text element has no
  \<^verbatim>\<open>width\<close>, \<^verbatim>\<open>height\<close> or \<^verbatim>\<open>r\<close>, so \<^verbatim>\<open>width || r * 2\<close> captures \<^verbatim>\<open>NaN\<close> for
  it (as for a rectangle of width 0), \<^verbatim>\<open>Math.max(20, NaN)\<close> is \<^verbatim>\<open>NaN\<close>, and the
  resize writes \<^verbatim>\<open>NaN\<close>. The statement below is about captured sizes and positions
  that are finite numbers.
\<close>

lemma text_resize_start:
  "initialSize textResizeStart = \<lparr>d_width = NaN, d_height = NaN\<rparr> \<and>
   initialPosition textResizeStart = \<lparr>q_x = Num 100, q_y = Num 100\<rparr>"
  by code_simp

lemma text_resize_writes_NaN:
  "e_width (elements (handleMouseMove positional textResizeStart \<lparr>p_x = 50, p_y = 60\<rparr>) ! 0) = NaN \<and>
   e_height (elements (handleMouseMove positional textResizeStart \<lparr>p_x = 50, p_y = 60\<rparr>) ! 0) = NaN"
proof -
  have a: "isResizing textResizeStart" "selectedElement textResizeStart = Some sampleText"
    "elements textResizeStart = [sampleText]" "resizeDirection textResizeStart = ''se''"
    by (simp_all add: textResizeStart_def resizeHandleDown_def)
  have t: "e_type sampleText = Text"
    by (simp add: sampleText_def createText_def)
  have "elements (handleMouseMove positional textResizeStart \<lparr>p_x = 50, p_y = 60\<rparr>) ! 0
          = resizeBox textResizeStart \<lparr>p_x = 50, p_y = 60\<rparr> sampleText"
    using handleMouseMove_resizeBox[of textResizeStart sampleText 0 positional
        "\<lparr>p_x = 50, p_y = 60\<rparr>"] a t
    by simp
  then show ?thesis
    using text_resize_start
    by (simp add: resizeBox_width resizeBox_height a(4) jsSub_def jsMax_def jsIsNaN_def
        snapToGridValue_def)
qed




section \<open>History\<close>

lemma synced_iff:
  "synced st = (0 \<le> historyIndex st \<and> historyIndex st < int (length (history st))
      \<and> history st ! nat (historyIndex st) = elements st)"
  by (auto simp: synced_def snapshotAt_def)

lemma applyEdit_recorded:
  assumes "recorded s st"
  shows "applyEdit s st =
     st\<lparr>elements := s, history := sliceTo (history st) (historyIndex st + 1) @ [s],
        historyIndex := int (length (sliceTo (history st) (historyIndex st + 1)))\<rparr>"
  using assms by (simp add: applyEdit_def recorded_def recordHistory_def Let_def)

lemma applyEdit_synced:
  assumes "synced st" "recorded s st"
  shows "history (applyEdit s st) = take (nat (historyIndex st) + 1) (history st) @ [s]"
    "historyIndex (applyEdit s st) = historyIndex st + 1"
    "elements (applyEdit s st) = s"
    "synced (applyEdit s st)"
proof -
  have sl: "sliceTo (history st) (historyIndex st + 1)
              = take (nat (historyIndex st) + 1) (history st)"
    using assms(1) by (simp add: sliceTo_def synced_iff nat_add_distrib)
  have len: "length (take (nat (historyIndex st) + 1) (history st)) = nat (historyIndex st) + 1"
    using assms(1) by (simp add: synced_iff) linarith
  show "history (applyEdit s st) = take (nat (historyIndex st) + 1) (history st) @ [s]"
    by (simp add: applyEdit_recorded[OF assms(2)] sl)
  show "historyIndex (applyEdit s st) = historyIndex st + 1"
    using assms(1) len
    by (simp add: applyEdit_recorded[OF assms(2)] sl synced_iff del: length_take)
  show "elements (applyEdit s st) = s"
    by (simp add: applyEdit_recorded[OF assms(2)])
  show "synced (applyEdit s st)"
    using assms(1) len
    by (simp add: synced_iff applyEdit_recorded[OF assms(2)] sl nth_append nat_add_distrib
        del: length_take)
qed

lemma undo_synced:
  assumes "synced st" "0 < historyIndex st"
  shows "undo st = Inr (st\<lparr>historyIndex := historyIndex st - 1,
                            elements := history st ! nat (historyIndex st - 1)\<rparr>)"
proof -
  have "history st \<noteq> []" using assms(1) by (auto simp: synced_iff)
  then show ?thesis
    using assms
    by (simp add: undo_def handleKeyDownZ_def spreadSnapshot_def snapshotAt_def synced_iff
        recordHistory_def)
qed

lemma redo_synced:
  assumes "synced st" "historyIndex st + 1 < int (length (history st))"
  shows "redo st = Inr (st\<lparr>historyIndex := historyIndex st + 1,
                            elements := history st ! nat (historyIndex st + 1)\<rparr>)"
proof -
  have "history st \<noteq> []" using assms(1) by (auto simp: synced_iff)
  then show ?thesis
    using assms
    by (simp add: redo_def handleKeyDownZ_def spreadSnapshot_def snapshotAt_def synced_iff
        recordHistory_def)
qed

lemma repeated_undo:
  "synced st \<Longrightarrow> int k \<le> historyIndex st \<Longrightarrow>
   repeated k undo st = Inr (st\<lparr>historyIndex := historyIndex st - int k,
                                 elements := history st ! nat (historyIndex st - int k)\<rparr>)"
proof (induction k arbitrary: st)
  case 0
  then show ?case by (simp add: synced_iff)
next
  case (Suc k)
  let ?st1 = "st\<lparr>historyIndex := historyIndex st - 1,
                  elements := history st ! nat (historyIndex st - 1)\<rparr>"
  have u: "undo st = Inr ?st1" using Suc.prems by (intro undo_synced) auto
  have s1: "synced ?st1" using Suc.prems by (simp add: synced_iff)
  have k1: "int k \<le> historyIndex ?st1" using Suc.prems by simp
  show ?case
    using Suc.IH[OF s1 k1] by (simp add: u algebra_simps)
qed

lemma repeated_redo:
  "synced st \<Longrightarrow> historyIndex st + int k < int (length (history st)) \<Longrightarrow>
   repeated k redo st = Inr (st\<lparr>historyIndex := historyIndex st + int k,
                                 elements := history st ! nat (historyIndex st + int k)\<rparr>)"
proof (induction k arbitrary: st)
  case 0
  then show ?case by (simp add: synced_iff)
next
  case (Suc k)
  let ?st1 = "st\<lparr>historyIndex := historyIndex st + 1,
                  elements := history st ! nat (historyIndex st + 1)\<rparr>"
  have u: "redo st = Inr ?st1" using Suc.prems by (intro redo_synced) auto
  have s1: "synced ?st1" using Suc.prems by (simp add: synced_iff)
  have k1: "historyIndex ?st1 + int k < int (length (history ?st1))" using Suc.prems by simp
  show ?case
    using Suc.IH[OF s1 k1] by (simp add: u algebra_simps)
qed

lemma applyEdits_synced:
  "synced st \<Longrightarrow> allRecorded ss st \<Longrightarrow>
   synced (applyEdits ss st) \<and>
   historyIndex (applyEdits ss st) = historyIndex st + int (length ss) \<and>
   (\<forall>j \<le> nat (historyIndex st). history (applyEdits ss st) ! j = history st ! j)"
proof (induction ss arbitrary: st)
  case Nil
  then show ?case by simp
next
  case (Cons s ss)
  let ?st1 = "applyEdit s st"
  have r: "recorded s st" and a: "allRecorded ss ?st1" using Cons.prems by simp_all
  note e = applyEdit_synced[OF Cons.prems(1) r]
  note ih = Cons.IH[OF e(4) a]
  have idx: "0 \<le> historyIndex st" "nat (historyIndex st) < length (history st)"
    using Cons.prems(1) by (auto simp: synced_iff)
  have "\<forall>j \<le> nat (historyIndex st). history (applyEdits ss ?st1) ! j = history st ! j"
  proof (intro allI impI)
    fix j assume j: "j \<le> nat (historyIndex st)"
    then have "j \<le> nat (historyIndex ?st1)" using idx by (simp add: e(2))
    then have "history (applyEdits ss ?st1) ! j = history ?st1 ! j" using ih by blast
    also have "\<dots> = history st ! j" using j idx by (simp add: e(1) nth_append)
    finally show "history (applyEdits ss ?st1) ! j = history st ! j" .
  qed
  then show ?case using ih by (simp add: e(2))
qed

lemma toolbar_keeps_scene:
  "elements (toolbarUndo st) = elements st \<and> elements (toolbarRedo st) = elements st"
  by (simp add: toolbarUndo_def toolbarRedo_def)

text \<open>
  Claim C2, as stated, fails. The editor starts with an empty scene, an empty history and
  index \<open>-1\<close>. The first edit, which adds \<open>sampleRect\<close>, is recorded at index 0. The
  undo branch needs an index above 0, so one undo after this one edit changes nothing: the
  scene still holds the rectangle and is not the scene before the edit. The effect never
  records an empty scene, so no undo can return to one.
\<close>

theorem undo_cannot_reach_unrecorded_scene:
  "allRecorded [[sampleRect]] initialEditor \<and>
   repeated (length [[sampleRect]]) undo (applyEdits [[sampleRect]] initialEditor)
     = Inr (applyEdits [[sampleRect]] initialEditor) \<and>
   elements (applyEdits [[sampleRect]] initialEditor) \<noteq> elements initialEditor"
  by code_simp

text \<open>
  Claim C2, amended. Let the current scene be the snapshot at the current history index
  (so it is not empty and has been recorded), and let \<open>n\<close> edits follow, each recorded.
  Then \<open>n\<close> undo operations by the keyboard succeed and return the scene to the one
  before the first edit, and \<open>n\<close> redo operations after them return the whole editor
  state, and so the scene, to what it was after the last edit.
\<close>

theorem undo_redo_inverse:
  assumes "snapshotAt (history st) (historyIndex st) = Some (elements st)"
    and "allRecorded ss st"
  shows "\<exists>st1. repeated (length ss) undo (applyEdits ss st) = Inr st1 \<and>
               elements st1 = elements st \<and>
               repeated (length ss) redo st1 = Inr (applyEdits ss st)"
proof -
  let ?st' = "applyEdits ss st"
  let ?n = "length ss"
  have sy: "synced st" using assms(1) by (simp add: synced_def)
  note f = applyEdits_synced[OF sy assms(2)]
  have s': "synced ?st'" and i': "historyIndex ?st' = historyIndex st + int ?n"
    and h': "history ?st' ! nat (historyIndex st) = history st ! nat (historyIndex st)"
    using f by auto
  let ?st1 = "?st'\<lparr>historyIndex := historyIndex ?st' - int ?n,
                  elements := history ?st' ! nat (historyIndex ?st' - int ?n)\<rparr>"
  have idx: "0 \<le> historyIndex st" "history st ! nat (historyIndex st) = elements st"
    using sy by (auto simp: synced_iff)
  have u: "repeated ?n undo ?st' = Inr ?st1"
    using idx by (intro repeated_undo[OF s']) (simp add: i')
  have el: "elements ?st1 = elements st" using h' idx by (simp add: i')
  have s1: "synced ?st1" using s' idx by (simp add: synced_iff i')
  have "repeated ?n redo ?st1 = Inr (?st1\<lparr>historyIndex := historyIndex ?st1 + int ?n,
            elements := history ?st1 ! nat (historyIndex ?st1 + int ?n)\<rparr>)"
    using s' by (intro repeated_redo[OF s1]) (simp add: synced_iff i')
  also have "?st1\<lparr>historyIndex := historyIndex ?st1 + int ?n,
            elements := history ?st1 ! nat (historyIndex ?st1 + int ?n)\<rparr> = ?st'"
    using s' by (simp add: synced_iff)
  finally have r: "repeated ?n redo ?st1 = Inr ?st'" .
  show ?thesis using u el r by blast
qed

theorem undo_redo_inverse_witness:
  "snapshotAt (history oneRect) (historyIndex oneRect) = Some (elements oneRect) \<and>
   allRecorded [[sampleRect, samplePath], [samplePath]] oneRect \<and>
   (\<exists>st1. repeated 2 undo (applyEdits [[sampleRect, samplePath], [samplePath]] oneRect)
             = Inr st1 \<and>
          elements st1 = [sampleRect] \<and>
          repeated 2 redo st1 = Inr (applyEdits [[sampleRect, samplePath], [samplePath]] oneRect))"
proof -
  have a: "snapshotAt (history oneRect) (historyIndex oneRect) = Some (elements oneRect)"
    by code_simp
  have b: "allRecorded [[sampleRect, samplePath], [samplePath]] oneRect"
    by code_simp
  have c: "elements oneRect = [sampleRect]"
    by code_simp
  have l: "length [[sampleRect, samplePath], [samplePath]] = 2"
    by simp
  have d: "\<exists>st1. repeated 2 undo (applyEdits [[sampleRect, samplePath], [samplePath]] oneRect)
             = Inr st1 \<and>
          elements st1 = [sampleRect] \<and>
          repeated 2 redo st1 = Inr (applyEdits [[sampleRect, samplePath], [samplePath]] oneRect)"
    using undo_redo_inverse[OF a b] unfolding l c .
  show ?thesis
    using a b d by blast
qed



section \<open>Path round trip\<close>

text \<open>
  Whatever the command text is, the first coordinate of a parsed move or line segment
  is \<^verbatim>\<open>NaN\<close>: the first group of a match is one of the letters of \<^verbatim>\<open>[MLml]\<close>, and
  without a match the command letter is taken.
\<close>

lemma matchAt_group1: "matchAt s = Some (g1, g2, g3) \<Longrightarrow> \<exists>c \<in> set ''MLml''. g1 = [c]"
  by (cases s) (auto simp: matchAt_def Let_def split: if_splits list.splits)

lemma regexMatch_group1:
  "regexMatch s = Some (g1, g2, g3) \<Longrightarrow> \<exists>c \<in> set ''MLml''. g1 = [c]"
proof (induction s)
  case Nil
  then show ?case by simp
next
  case (Cons a s)
  then show ?case
    by (cases "matchAt (a # s)") (auto dest: matchAt_group1)
qed

lemma parseFloat_letter: "c \<in> set ''MLml'' \<Longrightarrow> parseFloat [c] = NaN"
  by (auto simp: parseFloat_def parseUnsigned_def isSpace_def isDigit_def Let_def)

lemma parseCommand_x_NaN:
  assumes "charAt0 cmd = ''M'' \<or> charAt0 cmd = ''L''"
  shows "\<exists>b. parseCommand cmd = Coord (charAt0 cmd) NaN b"
proof -
  have "parseFloat (fst (destructure cmd (charAt0 cmd))) = NaN"
  proof (cases "regexMatch cmd")
    case None
    then show ?thesis using assms by (auto simp: destructure_def parseFloat_letter)
  next
    case (Some m)
    obtain g1 g2 g3 where m: "m = (g1, g2, g3)" by (cases m) auto
    then obtain c where "c \<in> set ''MLml''" "g1 = [c]"
      using regexMatch_group1[of cmd g1 g2 g3] Some by auto
    then show ?thesis using Some m parseFloat_letter[of c] by (simp add: destructure_def)
  qed
  then show ?thesis using assms by (auto simp: parseCommand_def Let_def)
qed

lemma parsePath_x_NaN:
  assumes "seg \<in> set (parsePath d)" "command seg = ''M'' \<or> command seg = ''L''"
  shows "\<exists>b. seg = Coord (command seg) NaN b"
proof -
  obtain cmd where c: "seg = parseCommand cmd"
    using assms(1) by (auto simp: parsePath_def)
  have k: "command (parseCommand cmd) = charAt0 cmd"
    by (simp add: parseCommand_def Let_def)
  show ?thesis
    using parseCommand_x_NaN[of cmd] assms(2) by (auto simp: c k)
qed

text \<open>
  Claim C3 does not hold of the code, by a slip in \<^verbatim>\<open>parsePath\<close>: the pattern
  \<^verbatim>\<open>[_, x, y]\<close> takes the command letter for \<open>x\<close> and the first coordinate for \<open>y\<close>.
  On the path \<^verbatim>\<open>M 10 20 L 30 40\<close>, which the editor itself builds for a path drawn
  through (10, 20) and (30, 40), every \<open>x\<close> is \<^verbatim>\<open>NaN\<close> and every \<open>y\<close> is the first
  coordinate; the serialised text is \<^verbatim>\<open>M NaN 10 L NaN 30\<close>, and since \<^verbatim>\<open>NaN\<close>
  holds the command letter \<open>a\<close>, parsing that text gives four segments, not two.
\<close>

theorem parse_stringify_parse_differs:
  "parsePath ''M 10 20 L 30 40'' = [Coord ''M'' NaN (Num 10), Coord ''L'' NaN (Num 30)] \<and>
   stringifyPath positional (parsePath ''M 10 20 L 30 40'') = ''M NaN 10 L NaN 30'' \<and>
   parsePath (stringifyPath positional (parsePath ''M 10 20 L 30 40''))
     = [Coord ''M'' NaN (Num 0), Raw ''a'' ''aN 10 '',
        Coord ''L'' NaN (Num 0), Raw ''a'' ''aN 30''] \<and>
   parsePath (stringifyPath positional (parsePath ''M 10 20 L 30 40''))
     \<noteq> parsePath ''M 10 20 L 30 40''"
  by code_simp

section \<open>Keyframes of a path animation\<close>

lemma joinWith_Cons: "ys \<noteq> [] \<Longrightarrow> joinWith sep (s # ys) = s @ sep @ joinWith sep ys"
  by (cases ys) simp_all

lemma entriesFrom_nonempty: "entriesFrom cur s \<noteq> []"
  by (induction s arbitrary: cur) auto

lemma entriesFrom_plain: "CHR '';'' \<notin> set s \<Longrightarrow> entriesFrom cur s = [rev cur @ s]"
  by (induction s arbitrary: cur) auto

lemma entriesFrom_last:
  "last (entriesFrom cur (a @ CHR '';'' # b)) = last (entriesFrom [] b)"
  by (induction a arbitrary: cur) (auto simp: entriesFrom_nonempty)

lemma last_entry_join:
  "CHR '';'' \<notin> set d \<Longrightarrow> last (keyframeEntries (joinWith '';'' (vs @ [d]))) = d"
proof (induction vs)
  case Nil
  then show ?case by (simp add: keyframeEntries_def entriesFrom_plain)
next
  case (Cons v vs)
  have "joinWith '';'' ((v # vs) @ [d]) = v @ CHR '';'' # joinWith '';'' (vs @ [d])"
    by (simp add: joinWith_Cons)
  then show ?case using Cons by (simp add: keyframeEntries_def entriesFrom_last)
qed

lemma length_randomVariations: "length (randomVariations fmt rnd off segs n k) = n"
  by (induction n arbitrary: k) simp_all

text \<open>
  Claim C4. For each of the three generators, every source path \<open>d\<close>, intensity \<open>i\<close>,
  number of variations \<open>n\<close> and random draws \<open>rnd\<close>, the generated value is the
  semicolon join of \<open>n\<close> variations followed by \<open>d\<close> itself; and, a path holding no
  semicolon, the last entry of the generated list, read back from the text, is \<open>d\<close>.
\<close>

theorem last_keyframe_is_source:
  "(\<exists>vs. length vs = n \<and>
      generatePathVariations fmt rnd d n i = joinWith '';'' (vs @ [d])) \<and>
   (\<exists>vs. length vs = n \<and>
      generateJitterPaths fmt rnd d i n = joinWith '';'' (vs @ [d])) \<and>
   (\<exists>vs. length vs = n \<and>
      generateWavePaths fmt d i n = joinWith '';'' (vs @ [d])) \<and>
   (CHR '';'' \<notin> set d \<longrightarrow>
      last (keyframeEntries (generatePathVariations fmt rnd d n i)) = d \<and>
      last (keyframeEntries (generateJitterPaths fmt rnd d i n)) = d \<and>
      last (keyframeEntries (generateWavePaths fmt d i n)) = d)"
proof -
  have a: "\<exists>vs. length vs = n \<and>
      generatePathVariations fmt rnd d n i = joinWith '';'' (vs @ [d])"
    unfolding generatePathVariations_def
    by (intro exI conjI) (rule length_randomVariations, rule refl)
  have b: "\<exists>vs. length vs = n \<and>
      generateJitterPaths fmt rnd d i n = joinWith '';'' (vs @ [d])"
    unfolding generateJitterPaths_def
    by (intro exI conjI) (rule length_randomVariations, rule refl)
  have c: "\<exists>vs. length vs = n \<and>
      generateWavePaths fmt d i n = joinWith '';'' (vs @ [d])"
    unfolding generateWavePaths_def
    by (rule exI[of _ "map (\<lambda>j. stringifyPath fmt
                 (waveSegments (real j / real n * pi * 2) i 0 (parsePath d))) [0..<n]"]) simp
  have "last (keyframeEntries (generatePathVariations fmt rnd d n i)) = d \<and>
      last (keyframeEntries (generateJitterPaths fmt rnd d i n)) = d \<and>
      last (keyframeEntries (generateWavePaths fmt d i n)) = d" if "CHR '';'' \<notin> set d"
    using a b c last_entry_join[OF that] by auto
  then show ?thesis using a b c by blast
qed

theorem last_keyframe_is_source_witness:
  "CHR '';'' \<notin> set ''M 10 20 L 30 40'' \<and>
   last (keyframeEntries (generatePathVariations positional evenDraws ''M 10 20 L 30 40'' 5 (1 / 2)))
     = ''M 10 20 L 30 40'' \<and>
   last (keyframeEntries (generateJitterPaths positional evenDraws ''M 10 20 L 30 40'' 7 5))
     = ''M 10 20 L 30 40'' \<and>
   last (keyframeEntries (generateWavePaths positional ''M 10 20 L 30 40'' 7 5))
     = ''M 10 20 L 30 40''"
proof -
  have a: "CHR '';'' \<notin> set ''M 10 20 L 30 40''" by simp
  have b: "last (keyframeEntries
                  (generatePathVariations positional evenDraws ''M 10 20 L 30 40'' 5 (1 / 2)))
             = ''M 10 20 L 30 40''"
    using a last_keyframe_is_source[of 5 positional evenDraws "''M 10 20 L 30 40''" "1 / 2"]
    by blast
  have c: "last (keyframeEntries (generateJitterPaths positional evenDraws ''M 10 20 L 30 40'' 7 5))
             = ''M 10 20 L 30 40'' \<and>
           last (keyframeEntries (generateWavePaths positional ''M 10 20 L 30 40'' 7 5))
             = ''M 10 20 L 30 40''"
    using a last_keyframe_is_source[of 5 positional evenDraws "''M 10 20 L 30 40''" 7]
    by blast
  show ?thesis using a b c by blast
qed

section \<open>Intensity edits\<close>

lemma intensityOnChange_hit:
  assumes "List.find (\<lambda>a. a_id a = s) as = Some anim" "a_type anim = ''motion''"
    "a_path anim = Some p" "p \<noteq> []"
  shows "\<exists>i. findIndex (\<lambda>a. a_id a = s) as = Some i \<and> as ! i = anim \<and>
     intensityOnChange fmt rnd as (Some s) v =
       as[i := anim\<lparr>a_intensity := Some v,
                     a_values := Some (variationsFor fmt rnd (motionTypeOf anim) p v)\<rparr>]"
proof -
  obtain i where i: "findIndex (\<lambda>a. a_id a = s) as = Some i" "as ! i = anim"
    using find_findIndex[OF assms(1)] by blast
  show ?thesis using i assms by (simp add: intensityOnChange_def)
qed

lemma intensityOnChange_miss:
  assumes "\<not> (\<exists>s anim p. sel = Some s \<and> List.find (\<lambda>a. a_id a = s) as = Some anim \<and>
              a_type anim = ''motion'' \<and> a_path anim = Some p \<and> p \<noteq> [])"
  shows "intensityOnChange fmt rnd as sel v = as"
  using assms by (auto simp: intensityOnChange_def split: option.splits)

text \<open>The descriptor that the button Path Morph adds stores the path data of the element.\<close>

lemma addPathMorph_stores_path:
  "e_type el = Path \<Longrightarrow>
   a_path (last (addPathMorph fmt rnd newId (Some el) as)) = Some (e_d el) \<and>
   a_values (last (addPathMorph fmt rnd newId (Some el) as))
     = Some (generatePathVariations fmt rnd (e_d el) 5 0.5)"
  by (simp add: addPathMorph_def)

lemma motionTypeOnChange_keeps_path:
  "map a_path (motionTypeOnChange as sel m) = map a_path as"
proof (cases "\<exists>s anim i. sel = Some s \<and> List.find (\<lambda>a. a_id a = s) as = Some anim \<and>
                findIndex (\<lambda>a. a_id a = s) as = Some i")
  case False
  then have "motionTypeOnChange as sel m = as"
    by (auto simp: motionTypeOnChange_def split: option.splits)
  then show ?thesis by simp
next
  case True
  then obtain s anim i where h: "sel = Some s" "List.find (\<lambda>a. a_id a = s) as = Some anim"
    "findIndex (\<lambda>a. a_id a = s) as = Some i"
    by blast
  have il: "i < length as" using findIndex_Some[OF h(3)] by simp
  have "map a_path (as[i := (as ! i)\<lparr>a_motionType := Some m\<rparr>]) = map a_path as"
    using il by (simp add: map_update list_update_same_conv)
  then show ?thesis
    using h by (simp add: motionTypeOnChange_def split: option.splits)
qed

text \<open>
  Claim C5. An intensity edit leaves the stored path and the motion type of every
  descriptor as they are, and writes to the selected path-motion descriptor the values
  generated from its stored path, its motion type and the new intensity (with the random
  draws of this edit). So a second edit gives the list that it would have given without
  the first: edits do not build on the values of earlier edits.
\<close>

theorem intensity_edit_from_original:
  "map a_path (intensityOnChange fmt rnd as sel v) = map a_path as \<and>
   map a_motionType (intensityOnChange fmt rnd as sel v) = map a_motionType as \<and>
   intensityOnChange fmt rnd' (intensityOnChange fmt rnd as sel v) sel v'
     = intensityOnChange fmt rnd' as sel v' \<and>
   (sel = Some s \<and> List.find (\<lambda>a. a_id a = s) as = Some anim \<and>
    a_type anim = ''motion'' \<and> a_path anim = Some p \<and> p \<noteq> [] \<longrightarrow>
      (\<exists>i. findIndex (\<lambda>a. a_id a = s) as = Some i \<and>
           a_intensity (intensityOnChange fmt rnd as sel v ! i) = Some v \<and>
           a_values (intensityOnChange fmt rnd as sel v ! i)
             = Some (variationsFor fmt rnd (motionTypeOf anim) p v)))"
proof (cases "\<exists>s anim p. sel = Some s \<and> List.find (\<lambda>a. a_id a = s) as = Some anim \<and>
              a_type anim = ''motion'' \<and> a_path anim = Some p \<and> p \<noteq> []")
  case False
  have "intensityOnChange fmt r as sel w = as" for r w
    using False by (rule intensityOnChange_miss)
  then show ?thesis using False by auto
next
  case True
  then obtain s0 anim0 p0 where h: "sel = Some s0"
      "List.find (\<lambda>a. a_id a = s0) as = Some anim0"
      "a_type anim0 = ''motion''" "a_path anim0 = Some p0" "p0 \<noteq> []"
    by blast
  let ?P = "\<lambda>a. a_id a = s0"
  let ?new = "\<lambda>r w. anim0\<lparr>a_intensity := Some w,
                  a_values := Some (variationsFor fmt r (motionTypeOf anim0) p0 w)\<rparr>"
  obtain i where i: "findIndex ?P as = Some i" "as ! i = anim0"
    and e: "\<And>r w. intensityOnChange fmt r as (Some s0) w = as[i := ?new r w]"
  proof -
    obtain j where j: "findIndex ?P as = Some j" "as ! j = anim0"
      using find_findIndex[OF h(2)] by blast
    have "intensityOnChange fmt r as (Some s0) w = as[j := ?new r w]" for r w
      using intensityOnChange_hit[OF h(2-5), of fmt r w] j by simp
    then show ?thesis using that j by blast
  qed
  have il: "i < length as" and pi: "?P (as ! i)" using findIndex_Some[OF i(1)] by auto
  have pn: "?P (?new rnd v)" using pi i(2) by simp
  have eq: "intensityOnChange fmt rnd as sel v = as[i := ?new rnd v]"
    by (simp add: h(1) e)
  have p1: "map a_path (intensityOnChange fmt rnd as sel v) = map a_path as"
    unfolding eq using il i(2) by (simp add: map_update list_update_same_conv)
  have p2: "map a_motionType (intensityOnChange fmt rnd as sel v) = map a_motionType as"
    unfolding eq using il i(2) by (simp add: map_update list_update_same_conv)
  have f2: "List.find ?P (as[i := ?new rnd v]) = Some (?new rnd v)"
    by (rule find_update[OF i(1) pn])
  have "intensityOnChange fmt rnd' (as[i := ?new rnd v]) (Some s0) v'
         = (as[i := ?new rnd v])[i := ?new rnd' v']"
  proof -
    obtain k where k: "findIndex ?P (as[i := ?new rnd v]) = Some k"
      "intensityOnChange fmt rnd' (as[i := ?new rnd v]) (Some s0) v' =
       (as[i := ?new rnd v])[k := (?new rnd v)\<lparr>a_intensity := Some v',
          a_values := Some (variationsFor fmt rnd' (motionTypeOf (?new rnd v)) p0 v')\<rparr>]"
      using intensityOnChange_hit[OF f2, of p0 fmt rnd' v'] h(3-5) by auto
    have "k = i" using k(1) findIndex_update[OF i(1) pn] by simp
    then show ?thesis using k(2) by (simp add: motionTypeOf_def)
  qed
  then have p3: "intensityOnChange fmt rnd' (intensityOnChange fmt rnd as sel v) sel v'
     = intensityOnChange fmt rnd' as sel v'"
    by (simp add: h(1) e)
  have p4: "sel = Some s \<and> List.find (\<lambda>a. a_id a = s) as = Some anim \<and>
    a_type anim = ''motion'' \<and> a_path anim = Some p \<and> p \<noteq> [] \<longrightarrow>
      (\<exists>i. findIndex (\<lambda>a. a_id a = s) as = Some i \<and>
           a_intensity (intensityOnChange fmt rnd as sel v ! i) = Some v \<and>
           a_values (intensityOnChange fmt rnd as sel v ! i)
             = Some (variationsFor fmt rnd (motionTypeOf anim) p v))"
  proof (intro impI)
    assume a: "sel = Some s \<and> List.find (\<lambda>a. a_id a = s) as = Some anim \<and>
      a_type anim = ''motion'' \<and> a_path anim = Some p \<and> p \<noteq> []"
    then have "s = s0" "anim = anim0" "p = p0" using h by auto
    then show "\<exists>i. findIndex (\<lambda>a. a_id a = s) as = Some i \<and>
           a_intensity (intensityOnChange fmt rnd as sel v ! i) = Some v \<and>
           a_values (intensityOnChange fmt rnd as sel v ! i)
             = Some (variationsFor fmt rnd (motionTypeOf anim) p v)"
      using i(1) il unfolding eq by simp
  qed
  show ?thesis
    using p1 p2 p3 p4 by blast
qed

theorem intensity_edit_from_original_witness:
  "List.find (\<lambda>a. a_id a = ''anim-1'') sampleAnimations = Some (hd sampleAnimations) \<and>
   a_type (hd sampleAnimations) = ''motion'' \<and>
   a_path (hd sampleAnimations) = Some ''M 10 20 L 30 40'' \<and>
   findIndex (\<lambda>a. a_id a = ''anim-1'') sampleAnimations = Some 0 \<and>
   a_values (intensityOnChange positional evenDraws sampleAnimations (Some ''anim-1'') 7 ! 0)
     = Some (variationsFor positional evenDraws ''morph'' ''M 10 20 L 30 40'' 7) \<and>
   intensityOnChange positional evenDraws
       (intensityOnChange positional evenDraws sampleAnimations (Some ''anim-1'') 7)
       (Some ''anim-1'') 12
     = intensityOnChange positional evenDraws sampleAnimations (Some ''anim-1'') 12"
proof -
  have a: "List.find (\<lambda>a. a_id a = ''anim-1'') sampleAnimations = Some (hd sampleAnimations)"
    by code_simp
  have b: "a_type (hd sampleAnimations) = ''motion''"
    by code_simp
  have c: "a_path (hd sampleAnimations) = Some ''M 10 20 L 30 40''"
    by code_simp
  have d: "findIndex (\<lambda>a. a_id a = ''anim-1'') sampleAnimations = Some 0"
    by code_simp
  have m: "motionTypeOf (hd sampleAnimations) = ''morph''"
    by code_simp
  note t = intensity_edit_from_original[where fmt = positional and rnd = evenDraws
      and as = sampleAnimations and sel = "Some ''anim-1''" and v = 7 and rnd' = evenDraws
      and v' = 12 and s = "''anim-1''" and anim = "hd sampleAnimations"
      and p = "''M 10 20 L 30 40''"]
  have e: "a_values (intensityOnChange positional evenDraws sampleAnimations (Some ''anim-1'') 7 ! 0)
     = Some (variationsFor positional evenDraws ''morph'' ''M 10 20 L 30 40'' 7)"
    using t a b c d by (simp add: m)
  have f: "intensityOnChange positional evenDraws
       (intensityOnChange positional evenDraws sampleAnimations (Some ''anim-1'') 7)
       (Some ''anim-1'') 12
     = intensityOnChange positional evenDraws sampleAnimations (Some ''anim-1'') 12"
    using t by blast
  show ?thesis using a b c d e f by blast
qed

section \<open>Stale gesture targets\<close>

text \<open>
  Claim C7. A pointer-move looks up the selected element when a resize is active and an
  element is selected, and the dragged element otherwise. When no element of the scene
  has the identifier looked up, the handler returns the state it was given: the element
  list, and every other cell, is unchanged. The handler of the model has no error
  result, as the source has no statement that throws on this path.
\<close>

theorem stale_gesture_is_noop:
  assumes "(isResizing st \<and> selectedElement st = Some t)
         \<or> (\<not> (isResizing st \<and> selectedElement st \<noteq> None) \<and> draggedElement st = Some t)"
      and "\<forall>el \<in> set (elements st). e_id el \<noteq> e_id t"
  shows "handleMouseMove fmt st pt = st"
proof -
  have n: "findIndex (\<lambda>el. e_id el = e_id t) (elements st) = None"
    using assms(2) by (simp add: findIndex_None)
  show ?thesis
    using assms(1) n
    by (auto simp: handleMouseMove_def resizeMove_def dragMove_def split: option.splits)
qed

theorem stale_gesture_is_noop_witness:
  "\<not> isResizing staleDrag \<and> draggedElement staleDrag = Some samplePath \<and>
   elements staleDrag = [sampleRect] \<and> e_id sampleRect \<noteq> e_id samplePath \<and>
   handleMouseMove positional staleDrag \<lparr>p_x = 55, p_y = 65\<rparr> = staleDrag \<and>
   isResizing staleResize \<and> selectedElement staleResize = Some samplePath \<and>
   elements staleResize = [sampleRect] \<and>
   handleMouseMove positional staleResize \<lparr>p_x = 55, p_y = 65\<rparr> = staleResize"
proof -
  have r: "isResizing staleResize" "selectedElement staleResize = Some samplePath"
    "elements staleResize = [sampleRect]"
    by (simp_all add: staleResize_def initialEditor_def)
  have a: "\<not> isResizing staleDrag" "draggedElement staleDrag = Some samplePath"
    "elements staleDrag = [sampleRect]"
    by (simp_all add: staleDrag_def initialEditor_def)
  have b: "e_id sampleRect \<noteq> e_id samplePath"
    by (simp add: sampleRect_def samplePath_def createRectangle_def createPath_def)
  have c: "\<forall>el \<in> set (elements staleDrag). e_id el \<noteq> e_id samplePath"
    using a(3) b by simp
  have d: "(isResizing staleDrag \<and> selectedElement staleDrag = Some samplePath)
         \<or> (\<not> (isResizing staleDrag \<and> selectedElement staleDrag \<noteq> None)
             \<and> draggedElement staleDrag = Some samplePath)"
    using a by simp
  have e: "\<forall>el \<in> set (elements staleResize). e_id el \<noteq> e_id samplePath"
    using r(3) b by simp
  have f: "(isResizing staleResize \<and> selectedElement staleResize = Some samplePath)
         \<or> (\<not> (isResizing staleResize \<and> selectedElement staleResize \<noteq> None)
             \<and> draggedElement staleResize = Some samplePath)"
    using r by simp
  show ?thesis
    using a b r stale_gesture_is_noop[OF d c, of positional "\<lparr>p_x = 55, p_y = 65\<rparr>"]
      stale_gesture_is_noop[OF f e, of positional "\<lparr>p_x = 55, p_y = 65\<rparr>"]
    by simp
qed

section \<open>Pointer-up\<close>

lemma idleClean_initial: "idleClean initialEditor"
  by (simp add: idleClean_def initialEditor_def)

lemma idleClean_move: "idleClean st \<Longrightarrow> idleClean (handleMouseMove fmt st pt)"
  by (auto simp: idleClean_def handleMouseMove_def resizeMove_def dragMove_def drawMove_def
      Let_def split: option.splits)

lemma idleClean_down:
  "idleClean (pathModeDown fmt st pt)"
  "idleClean (resizeHandleDown st sel dir) = idleClean st"
  by (simp_all add: idleClean_def pathModeDown_def resizeHandleDown_def)

lemma idleClean_up: "idleClean (handleMouseUp fmt newId st) = idleClean st"
  by (auto simp: idleClean_def handleMouseUp_def Let_def)

text \<open>
  Claim C8. In every state where the point list and the preview path are empty unless a
  drawing is in progress (the first render is such a state, and pointer-move and
  pointer-up keep the property), pointer-up leaves no dragged element, no resize, no
  drawing, an empty point list and an empty preview path; and with fewer than two
  captured points the element list is the one before.
\<close>

theorem pointer_up_clears_gesture:
  assumes "idleClean st"
  shows "draggedElement (handleMouseUp fmt newId st) = None \<and>
         \<not> isResizing (handleMouseUp fmt newId st) \<and>
         \<not> isDrawing (handleMouseUp fmt newId st) \<and>
         pathPoints (handleMouseUp fmt newId st) = [] \<and>
         drawingPath (handleMouseUp fmt newId st) = [] \<and>
         (length (pathPoints st) < 2 \<longrightarrow> elements (handleMouseUp fmt newId st) = elements st)"
  using assms by (auto simp: handleMouseUp_def idleClean_def Let_def)

theorem pointer_up_clears_gesture_witness:
  "idleClean onePointDrawing \<and> length (pathPoints onePointDrawing) < 2 \<and>
   isDrawing onePointDrawing \<and>
   draggedElement (handleMouseUp positional ''element-9'' onePointDrawing) = None \<and>
   \<not> isResizing (handleMouseUp positional ''element-9'' onePointDrawing) \<and>
   \<not> isDrawing (handleMouseUp positional ''element-9'' onePointDrawing) \<and>
   pathPoints (handleMouseUp positional ''element-9'' onePointDrawing) = [] \<and>
   drawingPath (handleMouseUp positional ''element-9'' onePointDrawing) = [] \<and>
   elements (handleMouseUp positional ''element-9'' onePointDrawing) = elements onePointDrawing"
proof -
  have a: "idleClean onePointDrawing" "isDrawing onePointDrawing"
    by (simp_all add: idleClean_def onePointDrawing_def)
  have b: "length (pathPoints onePointDrawing) < 2"
    by (simp add: onePointDrawing_def)
  show ?thesis
    using a b pointer_up_clears_gesture[OF a(1), of positional "''element-9''"] by simp
qed

section \<open>Point containment\<close>



section \<open>Bounding box of a path without move or line commands\<close>

lemma splitFrom_chars:
  "p \<in> set (splitFrom cur s) \<Longrightarrow> set p \<subseteq> set cur \<union> set s"
proof (induction s arbitrary: cur)
  case Nil
  then show ?case by simp
next
  case (Cons c cs)
  show ?case
  proof (cases "isCommandLetter c \<and> cur \<noteq> []")
    case True
    with Cons.prems have "p = rev cur \<or> p \<in> set (splitFrom [c] cs)" by simp
    then show ?thesis using Cons.IH[of "[c]"] by auto
  next
    case False
    with Cons.prems have "p \<in> set (splitFrom (c # cur) cs)" by auto
    then show ?thesis using Cons.IH[of "c # cur"] by auto
  qed
qed

lemma charAt0_mem: "charAt0 p = [c] \<Longrightarrow> c \<in> set p"
  by (cases p) (auto simp: charAt0_def)

lemma bboxStep_other:
  "CHR ''M'' \<notin> set cmd \<Longrightarrow> CHR ''L'' \<notin> set cmd \<Longrightarrow> bboxStep acc cmd = acc"
  using charAt0_mem[of cmd "CHR ''M''"] charAt0_mem[of cmd "CHR ''L''"]
  by (auto simp: bboxStep_def Let_def split: prod.splits)

lemma foldl_bboxStep_other:
  "\<forall>cmd \<in> set cmds. CHR ''M'' \<notin> set cmd \<and> CHR ''L'' \<notin> set cmd \<Longrightarrow>
   foldl bboxStep acc cmds = acc"
  by (induction cmds arbitrary: acc) (simp_all add: bboxStep_other)

text \<open>
  Claim C10. For a path element whose data has no command letter \<open>M\<close> and no \<open>L\<close>, the
  bounding box has \<open>x = y = +\<infinity>\<close> and \<open>width = height = -\<infinity>\<close>, and no point is in
  the element.
\<close>

theorem box_without_move_or_line:
  assumes "e_type el = Path" "CHR ''M'' \<notin> set (e_d el)" "CHR ''L'' \<notin> set (e_d el)"
  shows "getBoundingBox el = \<lparr>b_x = PInf, b_y = PInf, b_width = NInf, b_height = NInf\<rparr> \<and>
         (\<forall>pt. \<not> isPointInElement pt el)"
proof -
  have "\<forall>cmd \<in> set (splitCommands (e_d el)). CHR ''M'' \<notin> set cmd \<and> CHR ''L'' \<notin> set cmd"
    using assms(2,3) splitFrom_chars[of _ "[]" "e_d el"] by (auto simp: splitCommands_def)
  then have f: "foldl bboxStep (PInf, PInf, NInf, NInf) (splitCommands (e_d el))
                 = (PInf, PInf, NInf, NInf)"
    by (rule foldl_bboxStep_other)
  have b: "getBoundingBox el = \<lparr>b_x = PInf, b_y = PInf, b_width = NInf, b_height = NInf\<rparr>"
    using assms(1) by (simp add: getBoundingBox_def f jsSub_def)
  have "\<not> isPointInElement pt el" for pt
    using assms(1) by (simp add: isPointInElement_def b Let_def jsSub_def)
  then show ?thesis using b by blast
qed

theorem box_without_move_or_line_witness:
  "e_type sampleCurve = Path \<and> e_d sampleCurve = ''C 1 2 3 4 5 6 Z'' \<and>
   CHR ''M'' \<notin> set (e_d sampleCurve) \<and> CHR ''L'' \<notin> set (e_d sampleCurve) \<and>
   getBoundingBox sampleCurve = \<lparr>b_x = PInf, b_y = PInf, b_width = NInf, b_height = NInf\<rparr> \<and>
   \<not> isPointInElement \<lparr>p_x = 3, p_y = 4\<rparr> sampleCurve"
proof -
  have a: "e_type sampleCurve = Path" "e_d sampleCurve = ''C 1 2 3 4 5 6 Z''"
    by (simp_all add: sampleCurve_def)
  have b: "CHR ''M'' \<notin> set (e_d sampleCurve)" "CHR ''L'' \<notin> set (e_d sampleCurve)"
    by (simp_all add: a)
  show ?thesis
    using a b box_without_move_or_line[OF a(1) b] by simp
qed

end
